theory Spec2Isabelle
  imports Complex_Main
begin

unbundle bit_operations_syntax

section \<open>A sphere ray tracer with Phong shading: the model\<close>

text \<open>
  The program is \<^verbatim>\<open>src/CPU/Main.cpp\<close>: the constants, \<^verbatim>\<open>intersect_sphere\<close>,
  \<^verbatim>\<open>phong_shade\<close>, \<^verbatim>\<open>clip\<close> and \<^verbatim>\<open>main\<close>.

  Arithmetic. The C++ type \<^verbatim>\<open>float\<close> is read in two ways, and every statement below says
  which one it is about.

  \<^item> The loops of \<^verbatim>\<open>main\<close> (the scene, the scan for the closest sphere, the choice between
    shading and background, the output stream) are modelled over \<^typ>\<open>real\<close>: the
    statements about them are about the order of the steps, the comparisons and the
    indices, in exact arithmetic, and say nothing about rounding. There the macro
    \<^verbatim>\<open>INFINITY\<close> is a constructor of the type \<open>efloat\<close>, an operation whose IEEE result
    would be a NaN or an infinity returns an \<open>error\<close>, and so does \<^verbatim>\<open>scene[k]\<close> outside the
    vector, which C++ leaves undefined.

  \<^item> The three functions that compute with \<^verbatim>\<open>float\<close>, \<^verbatim>\<open>intersect_sphere\<close>, \<^verbatim>\<open>phong_shade\<close> and
    \<^verbatim>\<open>clip\<close>, are modelled a second time over the type \<open>f32\<close> of the IEEE 754 binary32
    values, every operation rounded to nearest, ties to even: the statements about what
    these functions return are about \<open>intersect_sphere32\<close>, \<open>phong_shade32\<close> and \<open>clip32\<close>.
\<close>

datatype error = ZeroLengthNorm | InfiniteParameter | IndexOutOfRange | PowDomain

definition ebind :: "error + 'a \<Rightarrow> ('a \<Rightarrow> error + 'b) \<Rightarrow> error + 'b" where
  "ebind m f = (case m of Inl e \<Rightarrow> Inl e | Inr a \<Rightarrow> f a)"

subsection \<open>Constants (Main.cpp, lines 8 to 16)\<close>

definition WIDTH :: int where "WIDTH = 1024"
definition HEIGHT :: int where "HEIGHT = 1024"
definition N_SPHERES :: int where "N_SPHERES = 10"

subsection \<open>Vec, Ray, Sphere\<close>

text \<open>
  Modelled from the spec: the headers \<^verbatim>\<open>Vec.h\<close>, \<^verbatim>\<open>Ray.h\<close> and \<^verbatim>\<open>Sphere.h\<close> are not among the
  sources. The spec (sections 3 and 4.1 to 4.3) gives a vector three components, with
  componentwise sum, difference and scalar product, \<open>dot(a,b) = a.x*b.x + a.y*b.y + a.z*b.z\<close>
  and \<open>normalize(v) = v / sqrt(dot(v,v))\<close>, unchecked; a ray an origin and a direction with
  \<open>pointAt(t) = origin + t*direction\<close>; a sphere a center, a radius, a color and a
  reflectivity. The names are those that Main.cpp calls: \<^verbatim>\<open>x() y() z()\<close>, \<^verbatim>\<open>dot\<close>, \<^verbatim>\<open>norm\<close>,
  \<^verbatim>\<open>A() B() P(t)\<close>, \<^verbatim>\<open>c() r() col()\<close>, with a prefix where a bare letter would capture the
  variables of every later statement.
\<close>

record vec =
  vec_x :: real
  vec_y :: real
  vec_z :: real

definition Vec :: "real \<Rightarrow> real \<Rightarrow> real \<Rightarrow> vec" where
  "Vec a b c = \<lparr>vec_x = a, vec_y = b, vec_z = c\<rparr>"

definition vadd :: "vec \<Rightarrow> vec \<Rightarrow> vec" where
  "vadd a b = Vec (vec_x a + vec_x b) (vec_y a + vec_y b) (vec_z a + vec_z b)"

definition vsub :: "vec \<Rightarrow> vec \<Rightarrow> vec" where
  "vsub a b = Vec (vec_x a - vec_x b) (vec_y a - vec_y b) (vec_z a - vec_z b)"

definition smul :: "real \<Rightarrow> vec \<Rightarrow> vec" where
  "smul k a = Vec (k * vec_x a) (k * vec_y a) (k * vec_z a)"

definition dot :: "vec \<Rightarrow> vec \<Rightarrow> real" where
  "dot a b = vec_x a * vec_x b + vec_y a * vec_y b + vec_z a * vec_z b"

text \<open>
  Modelled from the spec: \<^verbatim>\<open>norm\<close> of Vec.h, the division by the Euclidean length
  \<open>sqrt(dot(v,v))\<close>. The spec leaves a zero length unchecked, with a NaN result; here it
  is the error.
\<close>

definition norm_vec :: "vec \<Rightarrow> error + vec" where
  "norm_vec v =
     (let len = sqrt (dot v v)
      in if len = 0 then Inl ZeroLengthNorm
         else Inr (Vec (vec_x v / len) (vec_y v / len) (vec_z v / len)))"

text \<open>
  A \<^verbatim>\<open>float\<close> that may be the sentinel \<^verbatim>\<open>INFINITY\<close> of \<^verbatim>\<open><cmath>\<close>, and \<^verbatim>\<open><\<close> of \<^verbatim>\<open>float\<close> on it:
  every number is below the sentinel and the sentinel is below nothing.
\<close>

datatype efloat = Finite real | INFINITY

fun flt :: "efloat \<Rightarrow> efloat \<Rightarrow> bool" where
  "flt (Finite a) (Finite b) = (a < b)"
| "flt (Finite a) INFINITY = True"
| "flt INFINITY b = False"

record ray =
  ray_A :: vec
  ray_B :: vec

definition Ray :: "vec \<Rightarrow> vec \<Rightarrow> ray" where
  "Ray a b = \<lparr>ray_A = a, ray_B = b\<rparr>"

text \<open>
  Modelled from the spec: \<^verbatim>\<open>r.P(t)\<close> of Ray.h, origin + t * direction. The spec asks the
  callers not to pass the sentinel, whose products are infinities or NaN; here that call
  is the error.
\<close>

fun ray_P :: "ray \<Rightarrow> efloat \<Rightarrow> error + vec" where
  "ray_P r (Finite t) = Inr (vadd (ray_A r) (smul t (ray_B r)))"
| "ray_P r INFINITY = Inl InfiniteParameter"

text \<open>
  Modelled from the spec: the fields of Sphere.h, in the order of the constructor call of
  main, \<^verbatim>\<open>Sphere{center, radius, color, reflectivity}\<close>.
\<close>

record sphere =
  sph_c :: vec
  sph_r :: real
  sph_col :: vec
  sph_refl :: real

definition Sphere :: "vec \<Rightarrow> real \<Rightarrow> vec \<Rightarrow> real \<Rightarrow> sphere" where
  "Sphere ce ra co re = \<lparr>sph_c = ce, sph_r = ra, sph_col = co, sph_refl = re\<rparr>"

definition LIGHT :: vec where "LIGHT = Vec (-5) (-5) 10"
definition ORIGIN :: vec where "ORIGIN = Vec 0 0 2"

subsection \<open>intersect_sphere (Main.cpp, lines 22 to 30)\<close>

definition intersect_sphere :: "sphere \<Rightarrow> ray \<Rightarrow> efloat" where
  "intersect_sphere s r =
     (let Oc = vsub (ray_A r) (sph_c s);
          b = dot (ray_B r) Oc;
          c = dot Oc Oc - sph_r s * sph_r s;
          disc = b * b - c
      in if disc < 0 then INFINITY
         else let t = - b - sqrt disc
              in if t > 0 then Finite t else INFINITY)"

subsection \<open>phong_shade (Main.cpp, lines 33 to 46)\<close>

text \<open>
  \<^verbatim>\<open>fmaxf\<close> and \<^verbatim>\<open>powf\<close> of the C library, on real numbers. \<^verbatim>\<open>powf(x, 0)\<close> is 1 for every x;
  a zero base with a negative exponent is a pole and a negative base with an exponent
  that is not an integer has no real value: both are the error.
\<close>

definition fmaxf :: "real \<Rightarrow> real \<Rightarrow> real" where
  "fmaxf a b = (if a < b then b else a)"

definition powf :: "real \<Rightarrow> real \<Rightarrow> error + real" where
  "powf x y =
     (if y = 0 then Inr 1
      else if x > 0 then Inr (x powr y)
      else if x = 0 then (if y > 0 then Inr 0 else Inl PowDomain)
      else if y = of_int \<lfloor>y\<rfloor>
           then Inr (if even \<lfloor>y\<rfloor> then (- x) powr y else - ((- x) powr y))
           else Inl PowDomain)"

definition phong_shade ::
  "vec \<Rightarrow> vec \<Rightarrow> vec \<Rightarrow> vec \<Rightarrow> vec \<Rightarrow> vec \<Rightarrow> real \<Rightarrow> error + vec" where
  "phong_shade P N V Lpos Kd Ks shin =
     (let ambient = smul 0.1 Kd
      in ebind (norm_vec (vsub Lpos P)) (\<lambda>L.
         let diff = fmaxf (dot N L) 0;
             diffuse = smul diff Kd
         in ebind (norm_vec (vsub (smul (2 * dot N L) N) L)) (\<lambda>R.
            ebind (powf (fmaxf (dot R V) 0) shin) (\<lambda>spec.
            let specular = smul spec Ks
            in Inr (vadd (vadd ambient diffuse) specular)))))"

subsection \<open>clip (Main.cpp, lines 49 to 53)\<close>

text \<open>The conversion \<^verbatim>\<open>int(f)\<close> of C++ drops the fractional part, towards zero.\<close>

definition int_of_float :: "real \<Rightarrow> int" where
  "int_of_float f = (if 0 \<le> f then \<lfloor>f\<rfloor> else \<lceil>f\<rceil>)"

definition clip :: "real \<Rightarrow> int" where
  "clip c = (if c \<le> 0 then 0 else if c \<ge> 1 then 255 else int_of_float (c * 255.999))"

subsection \<open>main: the scene (Main.cpp, lines 57 to 64)\<close>

definition new_sphere :: "int \<Rightarrow> sphere" where
  "new_sphere i =
     (let y = - 1 + real_of_int i * (2 / real_of_int (N_SPHERES - 1));
          z = - 2 - real_of_int i * 0.5;
          t = real_of_int (N_SPHERES - i) / real_of_int N_SPHERES;
          color = Vec t 0.5 (1 - t)
      in Sphere (Vec 0 y z) 0.75 color 0)"

function build_scene :: "int \<Rightarrow> sphere list \<Rightarrow> sphere list" where
  "build_scene i scene =
     (if i < N_SPHERES then build_scene (i + 1) (scene @ [new_sphere i]) else scene)"
  by pat_completeness auto
termination
  by (relation "measure (\<lambda>(i, scene). nat (N_SPHERES - i))") auto

subsection \<open>main: the closest sphere (Main.cpp, lines 79 to 87)\<close>

text \<open>\<^verbatim>\<open>scene[k]\<close> on a \<^verbatim>\<open>std::vector\<close>: undefined outside \<open>0 \<le> k < size\<close>.\<close>

definition scene_at :: "sphere list \<Rightarrow> int \<Rightarrow> error + sphere" where
  "scene_at scene k =
     (if 0 \<le> k \<and> k < int (length scene) then Inr (scene ! nat k) else Inl IndexOutOfRange)"

function closest_loop ::
  "sphere list \<Rightarrow> ray \<Rightarrow> int \<Rightarrow> efloat \<Rightarrow> int \<Rightarrow> error + (efloat \<times> int)" where
  "closest_loop scene r k best_t hit_id =
     (if k < N_SPHERES then
        (case scene_at scene k of
           Inl e \<Rightarrow> Inl e
         | Inr s \<Rightarrow>
             (let t = intersect_sphere s r
              in if flt t best_t then closest_loop scene r (k + 1) t k
                 else closest_loop scene r (k + 1) best_t hit_id))
      else Inr (best_t, hit_id))"
  by pat_completeness auto
termination
  by (relation "measure (\<lambda>(scene, r, k, best_t, hit_id). nat (N_SPHERES - k))") auto

definition closest :: "sphere list \<Rightarrow> ray \<Rightarrow> error + (efloat \<times> int)" where
  "closest scene r = closest_loop scene r 0 INFINITY (- 1)"

subsection \<open>main: one pixel (Main.cpp, lines 72 to 111)\<close>

definition screen_u :: "int \<Rightarrow> real" where
  "screen_u i = - 1 + 2 * real_of_int i / real_of_int (WIDTH - 1)"

definition screen_v :: "int \<Rightarrow> real" where
  "screen_v j = - 1 + 2 * real_of_int j / real_of_int (HEIGHT - 1)"

text \<open>Lines 75 and 76: the ray from the camera through the point (u, v, 0).\<close>

definition camera_ray :: "real \<Rightarrow> real \<Rightarrow> error + ray" where
  "camera_ray u v = ebind (norm_vec (vsub (Vec u v 0) ORIGIN)) (\<lambda>dir. Inr (Ray ORIGIN dir))"

text \<open>Lines 92 to 97: the branch \<^verbatim>\<open>hit_id >= 0\<close>.\<close>

definition shade_hit :: "sphere list \<Rightarrow> ray \<Rightarrow> efloat \<Rightarrow> int \<Rightarrow> error + vec" where
  "shade_hit scene r best_t hit_id =
     ebind (ray_P r best_t) (\<lambda>P.
     ebind (scene_at scene hit_id) (\<lambda>s.
     ebind (norm_vec (vsub P (sph_c s))) (\<lambda>N.
     ebind (norm_vec (vsub ORIGIN P)) (\<lambda>Vc.
     let Kd = sph_col s;
         Ks = Vec 1 1 1
     in phong_shade P N Vc LIGHT Kd Ks 32))))"

text \<open>Lines 100 to 104: the checkered background.\<close>

definition background :: "real \<Rightarrow> real \<Rightarrow> vec" where
  "background u v =
     (let ix = int_of_float (real_of_int \<lfloor>(u + 1) * 5\<rfloor>);
          iy = int_of_float (real_of_int \<lfloor>(v + 1) * 5\<rfloor>);
          white = ((ix + iy) AND 1 = 0)
      in if white then Vec 0.9 0.9 0.9 else Vec 0.1 0.1 0.1)"

definition pixel_color :: "sphere list \<Rightarrow> int \<Rightarrow> int \<Rightarrow> error + vec" where
  "pixel_color scene i j =
     (let u = screen_u i;
          v = screen_v j
      in ebind (camera_ray u v) (\<lambda>r.
         ebind (closest scene r) (\<lambda>(best_t, hit_id).
         if hit_id \<ge> 0 then shade_hit scene r best_t hit_id
         else Inr (background u v))))"

subsection \<open>main: the output (Main.cpp, lines 67 and 108 to 111)\<close>

text \<open>\<^verbatim>\<open>std::cout << n\<close> for an \<^verbatim>\<open>int\<close>: the decimal digits, after a minus sign if negative.\<close>

definition digit_char :: "nat \<Rightarrow> char" where
  "digit_char d = ''0123456789'' ! d"

function show_nat :: "nat \<Rightarrow> string" where
  "show_nat n = (if n < 10 then [digit_char n] else show_nat (n div 10) @ [digit_char (n mod 10)])"
  by pat_completeness auto
termination
  by (relation "measure id") auto

definition show_int :: "int \<Rightarrow> string" where
  "show_int n = (if n < 0 then CHR ''-'' # show_nat (nat (- n)) else show_nat (nat n))"

definition header :: string where
  "header = ''P3'' @ [CHR 0x0A] @ show_int WIDTH @ '' '' @ show_int HEIGHT
              @ [CHR 0x0A] @ ''255'' @ [CHR 0x0A]"

definition write_pixel :: "vec \<Rightarrow> string" where
  "write_pixel pixelColor =
     show_int (clip (vec_x pixelColor)) @ '' '' @
     show_int (clip (vec_y pixelColor)) @ '' '' @
     show_int (clip (vec_z pixelColor)) @ [CHR 0x0A]"

text \<open>
  The two loops over the pixels; \<open>out\<close> is what has been written to \<^verbatim>\<open>std::cout\<close> so far.
\<close>

function col_loop :: "sphere list \<Rightarrow> int \<Rightarrow> int \<Rightarrow> string \<Rightarrow> error + string" where
  "col_loop scene j i out =
     (if i < WIDTH then
        (case pixel_color scene i j of
           Inl e \<Rightarrow> Inl e
         | Inr pixelColor \<Rightarrow> col_loop scene j (i + 1) (out @ write_pixel pixelColor))
      else Inr out)"
  by pat_completeness auto
termination
  by (relation "measure (\<lambda>(scene, j, i, out). nat (WIDTH - i))") auto

function row_loop :: "sphere list \<Rightarrow> int \<Rightarrow> string \<Rightarrow> error + string" where
  "row_loop scene j out =
     (if j \<ge> 0 then
        (case col_loop scene j 0 out of
           Inl e \<Rightarrow> Inl e
         | Inr out' \<Rightarrow> row_loop scene (j - 1) out')
      else Inr out)"
  by pat_completeness auto
termination
  by (relation "measure (\<lambda>(scene, j, out). nat (j + 1))") auto

definition render :: "sphere list \<Rightarrow> error + string" where
  "render scene = row_loop scene (HEIGHT - 1) header"


subsection \<open>The invariant of the scan\<close>

text \<open>
  The invariant of the loop before it looks at sphere \<open>k\<close>: no sphere before \<open>k\<close> is closer
  than \<open>bt\<close>, and either nothing was hit, or \<open>hid\<close> is the first sphere at distance \<open>bt\<close>.
\<close>

definition scanned :: "sphere list \<Rightarrow> ray \<Rightarrow> int \<Rightarrow> efloat \<Rightarrow> int \<Rightarrow> bool" where
  "scanned scene r k bt hid \<longleftrightarrow>
     (\<forall>m. 0 \<le> m \<and> m < k \<longrightarrow> \<not> flt (intersect_sphere (scene ! nat m) r) bt) \<and>
     ((hid = - 1 \<and> bt = INFINITY) \<or>
      (0 \<le> hid \<and> hid < k \<and> bt = intersect_sphere (scene ! nat hid) r \<and> bt \<noteq> INFINITY \<and>
       (\<forall>m. 0 \<le> m \<and> m < hid \<longrightarrow> flt bt (intersect_sphere (scene ! nat m) r))))"

subsection \<open>The order of the pixels, and spheres alike but for the reflectivity\<close>


definition same_geometry :: "sphere \<Rightarrow> sphere \<Rightarrow> bool" where
  "same_geometry s s' \<longleftrightarrow> sph_c s = sph_c s' \<and> sph_r s = sph_r s' \<and> sph_col s = sph_col s'"

section \<open>The three numeric functions in binary32: the model\<close>

text \<open>
  A value of \<^verbatim>\<open>float\<close>: a finite number (one of the real numbers that binary32 represents),
  one of the two infinities, or a NaN. The two zeros of IEEE 754 are one value here: they
  compare equal, and the only operation of the program that tells them apart is a
  division by zero, whose divisor is always the result \<open>+0\<close> of \<^verbatim>\<open>sqrtf\<close> on a sum of squares.
  Accordingly a division of a nonzero number by zero has the sign of the dividend.
\<close>

datatype f32 = Fin real | PInf | NInf | NaN

text \<open>
  Rounding to nearest, ties to even. A number x with \<open>2^e \<le> |x| < 2^(e+1)\<close> is rounded to a
  multiple of \<open>2^(e-23)\<close> (24 significant bits); below \<open>2^(-126)\<close> the spacing stays
  \<open>2^(-149)\<close> (the subnormal numbers); a result of magnitude \<open>2^128\<close> or more is an infinity.
\<close>

definition pow2 :: "int \<Rightarrow> real" where
  "pow2 e = (if 0 \<le> e then 2 ^ nat e else 1 / 2 ^ nat (- e))"

definition round_even :: "real \<Rightarrow> int" where
  "round_even q =
     (let r = \<lfloor>q\<rfloor>; d = q - real_of_int r
      in if d < 1 / 2 then r else if 1 / 2 < d then r + 1 else if even r then r else r + 1)"

definition expo :: "real \<Rightarrow> int" where
  "expo x = max \<lfloor>log 2 \<bar>x\<bar>\<rfloor> (- 126)"

definition rnd :: "real \<Rightarrow> f32" where
  "rnd x =
     (if x = 0 then Fin 0
      else let u = pow2 (expo x - 23);
               y = real_of_int (round_even (x / u)) * u
           in if 2 ^ 128 \<le> \<bar>y\<bar> then (if 0 < x then PInf else NInf) else Fin y)"

text \<open>
  The operations \<^verbatim>\<open>-x\<close>, \<^verbatim>\<open>+\<close>, \<^verbatim>\<open>-\<close>, \<^verbatim>\<open>*\<close>, \<^verbatim>\<open>/\<close> and \<^verbatim>\<open>sqrtf\<close> of IEEE 754: the exact result,
  rounded; \<open>inf - inf\<close>, \<open>0 * inf\<close>, \<open>0 / 0\<close>, \<open>inf / inf\<close> and the square root of a negative
  number are NaN, and a NaN operand gives a NaN.
\<close>

fun neg32 :: "f32 \<Rightarrow> f32" where
  "neg32 (Fin a) = Fin (- a)"
| "neg32 PInf = NInf"
| "neg32 NInf = PInf"
| "neg32 NaN = NaN"

fun add32 :: "f32 \<Rightarrow> f32 \<Rightarrow> f32" where
  "add32 (Fin a) (Fin b) = rnd (a + b)"
| "add32 NaN b = NaN"
| "add32 a NaN = NaN"
| "add32 PInf NInf = NaN"
| "add32 NInf PInf = NaN"
| "add32 PInf b = PInf"
| "add32 a PInf = PInf"
| "add32 NInf b = NInf"
| "add32 a NInf = NInf"

definition sub32 :: "f32 \<Rightarrow> f32 \<Rightarrow> f32" where
  "sub32 a b = add32 a (neg32 b)"

fun mul32 :: "f32 \<Rightarrow> f32 \<Rightarrow> f32" where
  "mul32 (Fin a) (Fin b) = rnd (a * b)"
| "mul32 NaN b = NaN"
| "mul32 a NaN = NaN"
| "mul32 (Fin a) PInf = (if a = 0 then NaN else if 0 < a then PInf else NInf)"
| "mul32 (Fin a) NInf = (if a = 0 then NaN else if 0 < a then NInf else PInf)"
| "mul32 PInf (Fin b) = (if b = 0 then NaN else if 0 < b then PInf else NInf)"
| "mul32 NInf (Fin b) = (if b = 0 then NaN else if 0 < b then NInf else PInf)"
| "mul32 PInf PInf = PInf"
| "mul32 PInf NInf = NInf"
| "mul32 NInf PInf = NInf"
| "mul32 NInf NInf = PInf"

fun div32 :: "f32 \<Rightarrow> f32 \<Rightarrow> f32" where
  "div32 (Fin a) (Fin b) =
     (if b = 0 then (if a = 0 then NaN else if 0 < a then PInf else NInf) else rnd (a / b))"
| "div32 NaN b = NaN"
| "div32 a NaN = NaN"
| "div32 (Fin a) b = Fin 0"
| "div32 PInf (Fin b) = (if 0 \<le> b then PInf else NInf)"
| "div32 NInf (Fin b) = (if 0 \<le> b then NInf else PInf)"
| "div32 a b = NaN"

fun sqrt32 :: "f32 \<Rightarrow> f32" where
  "sqrt32 (Fin a) = (if a < 0 then NaN else rnd (sqrt a))"
| "sqrt32 PInf = PInf"
| "sqrt32 NInf = NaN"
| "sqrt32 NaN = NaN"

text \<open>The comparisons \<^verbatim>\<open><\<close>, \<^verbatim>\<open><=\<close>, \<^verbatim>\<open>>\<close>, \<^verbatim>\<open>>=\<close>: false whenever an operand is a NaN.\<close>

fun lt32 :: "f32 \<Rightarrow> f32 \<Rightarrow> bool" where
  "lt32 (Fin a) (Fin b) = (a < b)"
| "lt32 NaN b = False"
| "lt32 a NaN = False"
| "lt32 a NInf = False"
| "lt32 PInf b = False"
| "lt32 a b = True"

fun le32 :: "f32 \<Rightarrow> f32 \<Rightarrow> bool" where
  "le32 (Fin a) (Fin b) = (a \<le> b)"
| "le32 NaN b = False"
| "le32 a NaN = False"
| "le32 NInf b = True"
| "le32 a PInf = True"
| "le32 a b = False"

definition gt32 :: "f32 \<Rightarrow> f32 \<Rightarrow> bool" where
  "gt32 a b = lt32 b a"

definition ge32 :: "f32 \<Rightarrow> f32 \<Rightarrow> bool" where
  "ge32 a b = le32 b a"




text \<open>
  The conversion \<^verbatim>\<open>int(f)\<close> of C++: the fractional part is dropped; the behaviour is
  undefined (\<open>None\<close>) when the result does not fit a 32-bit \<^verbatim>\<open>int\<close>, so for an infinity and
  a NaN.
\<close>

fun int_of_f32 :: "f32 \<Rightarrow> int option" where
  "int_of_f32 (Fin a) =
     (let n = (if 0 \<le> a then \<lfloor>a\<rfloor> else \<lceil>a\<rceil>)
      in if - (2 ^ 31) \<le> n \<and> n < 2 ^ 31 then Some n else None)"
| "int_of_f32 a = None"

text \<open>
  Modelled from the spec: \<^verbatim>\<open>Vec.h\<close>, \<^verbatim>\<open>Ray.h\<close> and \<^verbatim>\<open>Sphere.h\<close> again, as in the first part, with
  every component a \<open>f32\<close> and every operation rounded: the sum, the difference and the
  scalar multiple componentwise, \<open>dot(a,b) = (a.x*b.x + a.y*b.y) + a.z*b.z\<close>, and
  \<open>norm(v)\<close> the division of each component by \<open>sqrtf(dot(v,v))\<close>, unchecked.
\<close>

record vec32 =
  x32 :: f32
  y32 :: f32
  z32 :: f32

definition Vec32 :: "f32 \<Rightarrow> f32 \<Rightarrow> f32 \<Rightarrow> vec32" where
  "Vec32 a b c = \<lparr>x32 = a, y32 = b, z32 = c\<rparr>"

definition vadd32 :: "vec32 \<Rightarrow> vec32 \<Rightarrow> vec32" where
  "vadd32 a b = Vec32 (add32 (x32 a) (x32 b)) (add32 (y32 a) (y32 b)) (add32 (z32 a) (z32 b))"

definition vsub32 :: "vec32 \<Rightarrow> vec32 \<Rightarrow> vec32" where
  "vsub32 a b = Vec32 (sub32 (x32 a) (x32 b)) (sub32 (y32 a) (y32 b)) (sub32 (z32 a) (z32 b))"

definition smul32 :: "f32 \<Rightarrow> vec32 \<Rightarrow> vec32" where
  "smul32 k a = Vec32 (mul32 k (x32 a)) (mul32 k (y32 a)) (mul32 k (z32 a))"

definition dot32 :: "vec32 \<Rightarrow> vec32 \<Rightarrow> f32" where
  "dot32 a b = add32 (add32 (mul32 (x32 a) (x32 b)) (mul32 (y32 a) (y32 b))) (mul32 (z32 a) (z32 b))"

definition norm32 :: "vec32 \<Rightarrow> vec32" where
  "norm32 v =
     (let len = sqrt32 (dot32 v v)
      in Vec32 (div32 (x32 v) len) (div32 (y32 v) len) (div32 (z32 v) len))"

record ray32 =
  A32 :: vec32
  B32 :: vec32

definition Ray32 :: "vec32 \<Rightarrow> vec32 \<Rightarrow> ray32" where
  "Ray32 a b = \<lparr>A32 = a, B32 = b\<rparr>"

record sphere32 =
  c32 :: vec32
  r32 :: f32
  col32 :: vec32
  refl32 :: f32

definition Sphere32 :: "vec32 \<Rightarrow> f32 \<Rightarrow> vec32 \<Rightarrow> f32 \<Rightarrow> sphere32" where
  "Sphere32 ce ra co re = \<lparr>c32 = ce, r32 = ra, col32 = co, refl32 = re\<rparr>"

text \<open>\<^verbatim>\<open>intersect_sphere\<close> (Main.cpp, lines 22 to 30) in binary32; \<open>PInf\<close> is \<^verbatim>\<open>INFINITY\<close>.\<close>

definition intersect_sphere32 :: "sphere32 \<Rightarrow> ray32 \<Rightarrow> f32" where
  "intersect_sphere32 s r =
     (let Oc = vsub32 (A32 r) (c32 s);
          b = dot32 (B32 r) Oc;
          c = sub32 (dot32 Oc Oc) (mul32 (r32 s) (r32 s));
          disc = sub32 (mul32 b b) c
      in if lt32 disc (Fin 0) then PInf
         else let t = sub32 (neg32 b) (sqrt32 disc)
              in if gt32 t (Fin 0) then t else PInf)"


text \<open>
  \<^verbatim>\<open>clip\<close> (Main.cpp, lines 49 to 53) in binary32; \<open>rnd 255.999\<close> is the literal \<^verbatim>\<open>255.999f\<close>.
\<close>

definition clip32 :: "f32 \<Rightarrow> int option" where
  "clip32 c =
     (if le32 c (Fin 0) then Some 0
      else if ge32 c (Fin 1) then Some 255
      else int_of_f32 (mul32 c (rnd 255.999)))"

section \<open>Theorems about main, in exact arithmetic\<close>

declare build_scene.simps [simp del] closest_loop.simps [simp del] show_nat.simps [simp del]
  col_loop.simps [simp del] row_loop.simps [simp del]

lemma vec_sel_simps [simp]:
  "vec_x (Vec a b c) = a" "vec_y (Vec a b c) = b" "vec_z (Vec a b c) = c"
  by (simp_all add: Vec_def)

subsection \<open>The intersection test\<close>

lemma intersect_sphere_positive: "intersect_sphere s r = Finite t \<Longrightarrow> 0 < t"
  by (auto simp: intersect_sphere_def Let_def split: if_splits)

subsection \<open>The scan for the closest sphere\<close>

lemma flt_irrefl [simp]: "\<not> flt a a"
  by (cases a) auto

lemma flt_less_of_not_less: "flt a b \<Longrightarrow> \<not> flt c b \<Longrightarrow> flt a c"
  by (cases a; cases b; cases c) auto

lemma flt_not_less_of_less: "\<not> flt a b \<Longrightarrow> flt c b \<Longrightarrow> \<not> flt a c"
  by (cases a; cases b; cases c) auto

lemma flt_left_finite: "flt a b \<Longrightarrow> a \<noteq> INFINITY"
  by (cases a) auto

lemma not_flt_INFINITY [simp]: "\<not> flt a INFINITY \<longleftrightarrow> a = INFINITY"
  by (cases a) auto

lemma scanned_start: "scanned scene r 0 INFINITY (- 1)"
  unfolding scanned_def by auto

lemma scanned_step_less:
  assumes "scanned scene r k bt hid" and "0 \<le> k"
    and "flt (intersect_sphere (scene ! nat k) r) bt"
  shows "scanned scene r (k + 1) (intersect_sphere (scene ! nat k) r) k"
proof -
  let ?t = "intersect_sphere (scene ! nat k) r"
  have a: "\<not> flt (intersect_sphere (scene ! nat m) r) ?t" if "0 \<le> m" "m < k + 1" for m
  proof (cases "m = k")
    case True
    then show ?thesis by simp
  next
    case False
    with that have "m < k" by simp
    with assms(1) that have "\<not> flt (intersect_sphere (scene ! nat m) r) bt"
      by (simp add: scanned_def)
    with assms(3) show ?thesis using flt_not_less_of_less by blast
  qed
  have b: "flt ?t (intersect_sphere (scene ! nat m) r)" if "0 \<le> m" "m < k" for m
  proof -
    from assms(1) that have "\<not> flt (intersect_sphere (scene ! nat m) r) bt"
      by (simp add: scanned_def)
    with assms(3) show ?thesis using flt_less_of_not_less by blast
  qed
  from assms(3) have c: "?t \<noteq> INFINITY" by (rule flt_left_finite)
  show ?thesis unfolding scanned_def using a b c assms(2) by auto
qed

lemma scanned_step_keep:
  assumes "scanned scene r k bt hid" and "0 \<le> k"
    and "\<not> flt (intersect_sphere (scene ! nat k) r) bt"
  shows "scanned scene r (k + 1) bt hid"
proof -
  have a: "\<not> flt (intersect_sphere (scene ! nat m) r) bt" if "0 \<le> m" "m < k + 1" for m
  proof (cases "m = k")
    case True
    with assms(3) show ?thesis by simp
  next
    case False
    with that have "m < k" by simp
    with assms(1) that show ?thesis by (simp add: scanned_def)
  qed
  from assms(1) have
    "(hid = - 1 \<and> bt = INFINITY) \<or>
      (0 \<le> hid \<and> hid < k + 1 \<and> bt = intersect_sphere (scene ! nat hid) r \<and> bt \<noteq> INFINITY \<and>
       (\<forall>m. 0 \<le> m \<and> m < hid \<longrightarrow> flt bt (intersect_sphere (scene ! nat m) r)))"
    unfolding scanned_def by auto
  with a show ?thesis unfolding scanned_def by blast
qed

lemma closest_loop_scanned:
  "int (length scene) = N_SPHERES \<Longrightarrow> 0 \<le> k \<Longrightarrow> k \<le> N_SPHERES \<Longrightarrow>
   scanned scene r k bt hid \<Longrightarrow>
   \<exists>bt' hid'. closest_loop scene r k bt hid = Inr (bt', hid') \<and>
              scanned scene r N_SPHERES bt' hid'"
proof (induction scene r k bt hid rule: closest_loop.induct)
  case (1 scene r k best_t hit_id)
  show ?case
  proof (cases "k < N_SPHERES")
    case False
    with "1.prems" have "k = N_SPHERES" by simp
    with "1.prems" show ?thesis by (subst closest_loop.simps) simp
  next
    case True
    have "k < int (length scene)" using True "1.prems" by linarith
    with "1.prems" have at: "scene_at scene k = Inr (scene ! nat k)"
      by (simp add: scene_at_def)
    let ?t = "intersect_sphere (scene ! nat k) r"
    show ?thesis
    proof (cases "flt ?t best_t")
      case less: True
      have "scanned scene r (k + 1) ?t k"
        using scanned_step_less "1.prems" less by blast
      with "1.IH"(1)[OF True at refl less] True "1.prems"
      have "\<exists>bt' hid'. closest_loop scene r (k + 1) ?t k = Inr (bt', hid') \<and>
                       scanned scene r N_SPHERES bt' hid'"
        by simp
      then show ?thesis
        using True at less by (subst closest_loop.simps) (simp add: Let_def)
    next
      case keep: False
      have "scanned scene r (k + 1) best_t hit_id"
        using scanned_step_keep "1.prems" keep by blast
      with "1.IH"(2)[OF True at refl keep] True "1.prems"
      have "\<exists>bt' hid'. closest_loop scene r (k + 1) best_t hit_id = Inr (bt', hid') \<and>
                       scanned scene r N_SPHERES bt' hid'"
        by simp
      then show ?thesis
        using True at keep by (subst closest_loop.simps) (simp add: Let_def)
    qed
  qed
qed

lemma closest_scanned:
  assumes "int (length scene) = N_SPHERES"
  shows "\<exists>bt hid. closest scene r = Inr (bt, hid) \<and> scanned scene r N_SPHERES bt hid"
  unfolding closest_def
  using closest_loop_scanned [OF assms _ _ scanned_start] by (simp add: N_SPHERES_def)

subsection \<open>Every pixel has a color\<close>

lemma dot_self_nonneg: "0 \<le> dot v v"
  by (simp add: dot_def)

lemma dot_self_ge_z: "(vec_z v)\<^sup>2 \<le> dot v v"
  by (simp add: dot_def power2_eq_square)

lemma norm_vec_defined:
  assumes "dot v v \<noteq> 0"
  shows "\<exists>n. norm_vec v = Inr n \<and> dot n n = 1 \<and> vec_z n = vec_z v / sqrt (dot v v)"
proof -
  let ?len = "sqrt (dot v v)"
  have pos: "0 < dot v v" using assms dot_self_nonneg [of v] by simp
  then have len: "?len \<noteq> 0" by simp
  have sq: "?len * ?len = dot v v" using pos by simp
  have "dot (Vec (a / l) (b / l) (c / l)) (Vec (a / l) (b / l) (c / l))
        = (a * a + b * b + c * c) / (l * l)" for a b c l :: real
    by (simp add: dot_def add_divide_distrib)
  then have "dot (Vec (vec_x v / ?len) (vec_y v / ?len) (vec_z v / ?len))
            (Vec (vec_x v / ?len) (vec_y v / ?len) (vec_z v / ?len))
        = dot v v / (?len * ?len)"
    by (simp only: dot_def)
  also have "\<dots> = 1" unfolding sq using pos by simp
  finally show ?thesis using len by (simp add: norm_vec_def Let_def)
qed

lemma norm_vec_error: "norm_vec v = Inl e \<Longrightarrow> e = ZeroLengthNorm \<and> dot v v = 0"
  by (auto simp: norm_vec_def Let_def split: if_splits)

lemma norm_vec_Inr_iff: "(\<exists>n. norm_vec v = Inr n) \<longleftrightarrow> dot v v \<noteq> 0"
  by (auto simp: norm_vec_def Let_def dot_self_nonneg split: if_splits)

lemma camera_ray_defined:
  "\<exists>dir. norm_vec (vsub (Vec u v 0) ORIGIN) = Inr dir \<and> camera_ray u v = Inr (Ray ORIGIN dir)
         \<and> dot dir dir = 1 \<and> vec_z dir < 0"
proof -
  let ?d = "vsub (Vec u v 0) ORIGIN"
  have z: "vec_z ?d = - 2" by (simp add: vsub_def ORIGIN_def)
  have "4 \<le> dot ?d ?d" using dot_self_ge_z [of ?d] z by simp
  then have pos: "0 < dot ?d ?d" by simp
  then obtain n where n: "norm_vec ?d = Inr n" "dot n n = 1" "vec_z n = vec_z ?d / sqrt (dot ?d ?d)"
    using norm_vec_defined [of ?d] by auto
  from pos have "0 < sqrt (dot ?d ?d)" by simp
  then have "(- 2) / sqrt (dot ?d ?d) < 0" by (rule divide_neg_pos [rotated]) simp
  then have "vec_z n < 0" using n(3) z by simp
  with n show ?thesis by (simp add: camera_ray_def ebind_def)
qed

lemma dot_point_on_ray:
  "dot (vsub (vadd a (smul t b)) c) (vsub (vadd a (smul t b)) c)
   = dot (vsub a c) (vsub a c) + 2 * t * dot b (vsub a c) + t\<^sup>2 * dot b b"
  by (simp add: dot_def vsub_def vadd_def smul_def power2_eq_square algebra_simps)

lemma hit_point_on_sphere:
  assumes "intersect_sphere s r = Finite t" and "dot (ray_B r) (ray_B r) = 1"
  shows "dot (vsub (vadd (ray_A r) (smul t (ray_B r))) (sph_c s))
             (vsub (vadd (ray_A r) (smul t (ray_B r))) (sph_c s)) = (sph_r s)\<^sup>2"
proof -
  define oc where "oc = vsub (ray_A r) (sph_c s)"
  define b where "b = dot (ray_B r) oc"
  define c where "c = dot oc oc - sph_r s * sph_r s"
  define q where "q = sqrt (b * b - c)"
  from assms(1) have d: "0 \<le> b * b - c" and t: "t = - b - q"
    by (auto simp: intersect_sphere_def Let_def oc_def b_def c_def q_def split: if_splits)
  have qq: "q * q = b * b - c" using d by (simp add: q_def)
  have "dot oc oc + 2 * t * b + t\<^sup>2 * 1 = dot oc oc + (q * q - b * b)"
    unfolding t by (simp add: power2_eq_square algebra_simps)
  also have "\<dots> = sph_r s * sph_r s" unfolding qq c_def by simp
  finally show ?thesis
    unfolding dot_point_on_ray assms(2) oc_def [symmetric] b_def [symmetric]
    by (simp add: power2_eq_square)
qed

lemma view_vector_length:
  "dot (vsub a (vadd a (smul t b))) (vsub a (vadd a (smul t b))) = t\<^sup>2 * dot b b"
  by (simp add: dot_def vsub_def vadd_def smul_def power2_eq_square algebra_simps)

lemma reflection_unit:
  assumes "dot n n = 1" and "dot l l = 1"
  shows "dot (vsub (smul (2 * dot n l) n) l) (vsub (smul (2 * dot n l) n) l) = 1"
proof -
  have "dot (vsub (smul k n) l) (vsub (smul k n) l) = k\<^sup>2 * dot n n - 2 * k * dot n l + dot l l" for k
    by (simp add: dot_def vsub_def smul_def power2_eq_square algebra_simps)
  then show ?thesis using assms by (simp add: power2_eq_square)
qed

lemma powf_defined: "0 < y \<Longrightarrow> powf (fmaxf a 0) y = Inr (fmaxf a 0 powr y)"
  by (simp add: powf_def fmaxf_def)

lemma phong_shade_defined:
  assumes "dot N N = 1" and "dot (vsub Lpos P) (vsub Lpos P) \<noteq> 0" and "0 < shin"
  shows "\<exists>L R c. norm_vec (vsub Lpos P) = Inr L \<and> norm_vec (vsub (smul (2 * dot N L) N) L) = Inr R
           \<and> phong_shade P N V Lpos Kd Ks shin = Inr c"
proof -
  from norm_vec_defined [OF assms(2)] obtain L
    where L: "norm_vec (vsub Lpos P) = Inr L" "dot L L = 1" by blast
  have "dot (vsub (smul (2 * dot N L) N) L) (vsub (smul (2 * dot N L) N) L) \<noteq> 0"
    using reflection_unit [OF assms(1) L(2)] by simp
  from norm_vec_defined [OF this] obtain R
    where R: "norm_vec (vsub (smul (2 * dot N L) N) L) = Inr R" by blast
  show ?thesis using L R powf_defined [OF assms(3)]
    by (simp add: phong_shade_def ebind_def Let_def)
qed


lemma shade_hit_defined:
  assumes at: "scene_at scene hid = Inr s"
    and hit: "intersect_sphere s r = Finite t"
    and org: "ray_A r = ORIGIN"
    and unit: "dot (ray_B r) (ray_B r) = 1"
    and down: "vec_z (ray_B r) < 0"
    and rad: "sph_r s \<noteq> 0"
  shows "\<exists>P N Vc L R c. ray_P r (Finite t) = Inr P
           \<and> norm_vec (vsub P (sph_c s)) = Inr N
           \<and> norm_vec (vsub ORIGIN P) = Inr Vc
           \<and> norm_vec (vsub LIGHT P) = Inr L
           \<and> norm_vec (vsub (smul (2 * dot N L) N) L) = Inr R
           \<and> shade_hit scene r (Finite t) hid = Inr c"
proof -
  define P where "P = vadd (ray_A r) (smul t (ray_B r))"
  have t: "0 < t" using hit by (rule intersect_sphere_positive)
  have "dot (vsub P (sph_c s)) (vsub P (sph_c s)) = (sph_r s)\<^sup>2"
    unfolding P_def using hit unit by (rule hit_point_on_sphere)
  with rad have "dot (vsub P (sph_c s)) (vsub P (sph_c s)) \<noteq> 0" by simp
  from norm_vec_defined [OF this] obtain N
    where N: "norm_vec (vsub P (sph_c s)) = Inr N" "dot N N = 1" by blast
  have "dot (vsub ORIGIN P) (vsub ORIGIN P) = t\<^sup>2 * 1"
    unfolding P_def org using view_vector_length [of ORIGIN t "ray_B r"] unit by simp
  with t have "dot (vsub ORIGIN P) (vsub ORIGIN P) \<noteq> 0" by simp
  from norm_vec_defined [OF this] obtain Vc
    where Vc: "norm_vec (vsub ORIGIN P) = Inr Vc" by blast
  have "t * vec_z (ray_B r) < 0" using t down by (rule mult_pos_neg)
  then have "vec_z (vsub LIGHT P) > 8"
    unfolding P_def org by (simp add: vsub_def vadd_def smul_def LIGHT_def ORIGIN_def)
  then have "8 * 8 < vec_z (vsub LIGHT P) * vec_z (vsub LIGHT P)"
    by (intro mult_strict_mono) simp_all
  with dot_self_ge_z [of "vsub LIGHT P"] have "dot (vsub LIGHT P) (vsub LIGHT P) \<noteq> 0"
    by (simp add: power2_eq_square)
  from phong_shade_defined [OF N(2) this, of 32 Vc "sph_col s" "Vec 1 1 1"] obtain L R c
    where ph: "norm_vec (vsub LIGHT P) = Inr L" "norm_vec (vsub (smul (2 * dot N L) N) L) = Inr R"
      "phong_shade P N Vc LIGHT (sph_col s) (Vec 1 1 1) 32 = Inr c"
    by auto
  have "ray_P r (Finite t) = Inr P" by (simp add: P_def)
  moreover have "shade_hit scene r (Finite t) hid = Inr c"
    using at N(1) Vc ph(3) by (simp add: shade_hit_def ebind_def Let_def P_def)
  ultimately show ?thesis using N(1) Vc ph(1,2) by blast
qed

lemma scanned_hit:
  assumes "scanned scene r N_SPHERES bt hid" and "0 \<le> hid" and "int (length scene) = N_SPHERES"
  shows "\<exists>t. bt = Finite t \<and> hid < N_SPHERES \<and> scene_at scene hid = Inr (scene ! nat hid)
           \<and> intersect_sphere (scene ! nat hid) r = Finite t \<and> scene ! nat hid \<in> set scene"
proof -
  from assms(1,2) have 1: "hid < N_SPHERES" "bt = intersect_sphere (scene ! nat hid) r"
    "bt \<noteq> INFINITY"
    by (auto simp: scanned_def)
  from 1(3) obtain t where t: "bt = Finite t" by (cases bt) auto
  have "nat hid < length scene" using 1(1) assms(2,3) by linarith
  then have "scene ! nat hid \<in> set scene" by simp
  moreover have "scene_at scene hid = Inr (scene ! nat hid)"
    using 1(1) assms(2,3) by (simp add: scene_at_def)
  moreover have "intersect_sphere (scene ! nat hid) r = Finite t"
    using 1(2) t by simp
  ultimately show ?thesis using 1(1) t by blast
qed

lemma pixel_color_defined:
  assumes len: "int (length scene) = N_SPHERES"
    and rad: "\<forall>s \<in> set scene. sph_r s \<noteq> 0"
  shows "\<exists>dir bt hid c.
           norm_vec (vsub (Vec (screen_u i) (screen_v j) 0) ORIGIN) = Inr dir
         \<and> closest scene (Ray ORIGIN dir) = Inr (bt, hid)
         \<and> (0 \<le> hid \<longrightarrow> (\<exists>P N Vc L R.
               ray_P (Ray ORIGIN dir) bt = Inr P
             \<and> norm_vec (vsub P (sph_c (scene ! nat hid))) = Inr N
             \<and> norm_vec (vsub ORIGIN P) = Inr Vc
             \<and> norm_vec (vsub LIGHT P) = Inr L
             \<and> norm_vec (vsub (smul (2 * dot N L) N) L) = Inr R))
         \<and> pixel_color scene i j = Inr c"
proof -
  from camera_ray_defined [of "screen_u i" "screen_v j"] obtain dir
    where d: "norm_vec (vsub (Vec (screen_u i) (screen_v j) 0) ORIGIN) = Inr dir"
      "camera_ray (screen_u i) (screen_v j) = Inr (Ray ORIGIN dir)"
      "dot dir dir = 1" "vec_z dir < 0"
    by blast
  let ?r = "Ray ORIGIN dir"
  from closest_scanned [OF len, of ?r] obtain bt hid
    where c: "closest scene ?r = Inr (bt, hid)" and s: "scanned scene ?r N_SPHERES bt hid"
    by blast
  show ?thesis
  proof (cases "0 \<le> hid")
    case False
    then have "pixel_color scene i j = Inr (background (screen_u i) (screen_v j))"
      using d(2) c by (simp add: pixel_color_def ebind_def Let_def)
    with d(1) c False show ?thesis by blast
  next
    case True
    from scanned_hit [OF s True len] obtain t
      where t: "bt = Finite t" "scene_at scene hid = Inr (scene ! nat hid)"
        "intersect_sphere (scene ! nat hid) ?r = Finite t" "scene ! nat hid \<in> set scene"
      by blast
    from t(4) rad have r0: "sph_r (scene ! nat hid) \<noteq> 0" by blast
    from shade_hit_defined [OF t(2) t(3) _ _ _ r0] d(3,4) obtain P N Vc L R col
      where sh: "ray_P ?r (Finite t) = Inr P"
        "norm_vec (vsub P (sph_c (scene ! nat hid))) = Inr N"
        "norm_vec (vsub ORIGIN P) = Inr Vc"
        "norm_vec (vsub LIGHT P) = Inr L"
        "norm_vec (vsub (smul (2 * dot N L) N) L) = Inr R"
        "shade_hit scene ?r (Finite t) hid = Inr col"
      by (auto simp: Ray_def)
    have "pixel_color scene i j = Inr col"
      using d(2) c True sh(6) t(1) by (simp add: pixel_color_def ebind_def Let_def)
    with d(1) c sh t(1) show ?thesis by blast
  qed
qed

lemma build_scene_eq: "build_scene 0 [] = map new_sphere [0..9]"
  by (simp add: build_scene.simps N_SPHERES_def upto_rec1)

lemma build_scene_length: "int (length (build_scene 0 [])) = N_SPHERES"
  by (simp add: build_scene_eq N_SPHERES_def upto_rec1)


subsection \<open>Rays that hit and rays that miss\<close>

lemma norm_vec_dot:
  assumes "norm_vec raw = Inr dir"
  shows "dot dir w = dot raw w / sqrt (dot raw raw)"
  using assms
  by (auto simp: norm_vec_def Let_def dot_def add_divide_distrib split: if_splits)

lemma intersect_sphere_miss:
  assumes "norm_vec raw = Inr dir"
    and "(dot raw (vsub a (sph_c s)))\<^sup>2
           < (dot (vsub a (sph_c s)) (vsub a (sph_c s)) - sph_r s * sph_r s) * dot raw raw"
  shows "intersect_sphere s (Ray a dir) = INFINITY"
proof -
  let ?oc = "vsub a (sph_c s)"
  let ?c = "dot ?oc ?oc - sph_r s * sph_r s"
  have nz: "dot raw raw \<noteq> 0" using assms(1) norm_vec_Inr_iff by blast
  then have pos: "0 < dot raw raw" using dot_self_nonneg [of raw] by simp
  have b: "dot dir ?oc = dot raw ?oc / sqrt (dot raw raw)"
    using assms(1) by (rule norm_vec_dot)
  have "dot dir ?oc * dot dir ?oc = (dot raw ?oc)\<^sup>2 / dot raw raw"
    unfolding b using pos by (simp add: power2_eq_square)
  also have "\<dots> < ?c" using assms(2) pos by (simp add: field_simps)
  finally show ?thesis by (simp add: intersect_sphere_def Ray_def Let_def)
qed

lemma intersect_sphere_hit:
  assumes "norm_vec raw = Inr dir"
    and "dot raw (vsub a (sph_c s)) < 0"
    and "0 < dot (vsub a (sph_c s)) (vsub a (sph_c s)) - sph_r s * sph_r s"
    and "(dot (vsub a (sph_c s)) (vsub a (sph_c s)) - sph_r s * sph_r s) * dot raw raw
           \<le> (dot raw (vsub a (sph_c s)))\<^sup>2"
  shows "\<exists>t. intersect_sphere s (Ray a dir) = Finite t"
proof -
  let ?oc = "vsub a (sph_c s)"
  let ?c = "dot ?oc ?oc - sph_r s * sph_r s"
  let ?b = "dot dir ?oc"
  have nz: "dot raw raw \<noteq> 0" using assms(1) norm_vec_Inr_iff by blast
  then have pos: "0 < dot raw raw" using dot_self_nonneg [of raw] by simp
  have b: "?b = dot raw ?oc / sqrt (dot raw raw)"
    using assms(1) by (rule norm_vec_dot)
  have bneg: "?b < 0" unfolding b using assms(2) pos by (simp add: divide_neg_pos)
  have "?b * ?b = (dot raw ?oc)\<^sup>2 / dot raw raw"
    unfolding b using pos by (simp add: power2_eq_square)
  moreover have "?c \<le> (dot raw ?oc)\<^sup>2 / dot raw raw"
    using assms(4) pos by (simp add: field_simps)
  ultimately have disc: "0 \<le> ?b * ?b - ?c" by simp
  have "?b * ?b - ?c < (- ?b)\<^sup>2" using assms(3) by (simp add: power2_eq_square)
  then have "sqrt (?b * ?b - ?c) < - ?b"
    using bneg by (intro real_less_lsqrt) simp_all
  then have "0 < - ?b - sqrt (?b * ?b - ?c)" by simp
  with disc show ?thesis by (simp add: intersect_sphere_def Ray_def Let_def)
qed

lemma build_scene_nth:
  assumes "0 \<le> k" and "k < N_SPHERES"
  shows "build_scene 0 [] ! nat k = new_sphere k"
proof -
  have "nat k < length [0..9]" using assms by (simp add: N_SPHERES_def)
  then have "map new_sphere [0..9] ! nat k = new_sphere ([0..9] ! nat k)" by (rule nth_map)
  also have "[0..9] ! nat k = 0 + int (nat k)"
    using assms by (intro nth_upto) (simp add: N_SPHERES_def)
  finally show ?thesis using assms by (simp add: build_scene_eq)
qed

lemma bottom_pixels_miss:
  assumes "norm_vec (vsub (Vec (screen_u i) (screen_v 0) 0) ORIGIN) = Inr dir"
    and "i = 0 \<or> i = 103" and "0 \<le> k" and "k < N_SPHERES"
  shows "intersect_sphere (build_scene 0 [] ! nat k) (Ray ORIGIN dir) = INFINITY"
proof -
  have k: "k \<in> {0, 1, 2, 3, 4, 5, 6, 7, 8, 9}"
    using assms(3,4) unfolding N_SPHERES_def by simp arith
  have "intersect_sphere (new_sphere k) (Ray ORIGIN dir) = INFINITY"
    apply (rule intersect_sphere_miss [OF assms(1)])
    using assms(2) k
    apply (elim insertE emptyE disjE)
    apply (simp_all add: new_sphere_def Sphere_def Let_def N_SPHERES_def screen_u_def
        screen_v_def WIDTH_def HEIGHT_def ORIGIN_def vsub_def dot_def power2_eq_square)
    done
  then show ?thesis using build_scene_nth [OF assms(3,4)] by simp
qed

subsection \<open>The scan chooses the sphere that is shaded\<close>

lemma phong_shade_result:
  assumes "phong_shade P N V Lpos Kd Ks shin = Inr c"
  shows "\<exists>diff spec. 0 \<le> diff \<and> c = vadd (vadd (smul 0.1 Kd) (smul diff Kd)) (smul spec Ks)"
proof -
  from assms obtain L R spec
    where "c = vadd (vadd (smul 0.1 Kd) (smul (fmaxf (dot N L) 0) Kd)) (smul spec Ks)"
    by (auto simp: phong_shade_def ebind_def Let_def split: sum.splits)
  moreover have "0 \<le> fmaxf (dot N L) 0" by (simp add: fmaxf_def)
  ultimately show ?thesis by blast
qed

lemma shade_hit_unfold:
  assumes "scene_at scene hid = Inr s"
  shows "shade_hit scene r (Finite t) hid =
           ebind (norm_vec (vsub (vadd (ray_A r) (smul t (ray_B r))) (sph_c s))) (\<lambda>N.
           ebind (norm_vec (vsub ORIGIN (vadd (ray_A r) (smul t (ray_B r))))) (\<lambda>Vc.
           phong_shade (vadd (ray_A r) (smul t (ray_B r))) N Vc LIGHT (sph_col s) (Vec 1 1 1) 32))"
  using assms by (simp add: shade_hit_def ebind_def Let_def)

text \<open>
  C3. For every pixel, with r the ray of the pixel: the scan looks at every one of the
  N_SPHERES = 10 spheres and ends with \<open>best_t\<close>, the smallest of the ten results of
  intersect_sphere, and with \<open>hit_id\<close>, the index of the first sphere whose result is
  \<open>best_t\<close>: a sphere at the same distance later in the scan does not replace it. With no
  hit (\<open>hit_id = -1\<close>) the pixel has the color of the background. With a hit, \<open>best_t\<close> is
  positive and the color of the pixel is the shading of that sphere: the hit point
  P = origin + \<open>best_t\<close> * direction, the normal at P from the center of \<open>scene[hit_id]\<close>, and
  phong_shade with the color of \<open>scene[hit_id]\<close>.
\<close>

theorem scan_selects_first_minimum:
  assumes "int (length scene) = N_SPHERES"
  shows "\<exists>r best_t hit_id.
       camera_ray (screen_u i) (screen_v j) = Inr r
     \<and> closest scene r = Inr (best_t, hit_id)
     \<and> (\<forall>k. 0 \<le> k \<and> k < N_SPHERES \<longrightarrow> \<not> flt (intersect_sphere (scene ! nat k) r) best_t)
     \<and> (hit_id = - 1 \<longrightarrow>
          (\<forall>k. 0 \<le> k \<and> k < N_SPHERES \<longrightarrow> intersect_sphere (scene ! nat k) r = INFINITY)
          \<and> pixel_color scene i j = Inr (background (screen_u i) (screen_v j)))
     \<and> (hit_id \<noteq> - 1 \<longrightarrow>
          0 \<le> hit_id \<and> hit_id < N_SPHERES
          \<and> intersect_sphere (scene ! nat hit_id) r = best_t
          \<and> (\<forall>k. 0 \<le> k \<and> k < N_SPHERES \<and> intersect_sphere (scene ! nat k) r = best_t
                 \<longrightarrow> hit_id \<le> k)
          \<and> pixel_color scene i j = shade_hit scene r best_t hit_id
          \<and> (\<exists>t. 0 < t \<and> best_t = Finite t
               \<and> shade_hit scene r best_t hit_id =
                   ebind (norm_vec (vsub (vadd (ray_A r) (smul t (ray_B r)))
                                         (sph_c (scene ! nat hit_id)))) (\<lambda>N.
                   ebind (norm_vec (vsub ORIGIN (vadd (ray_A r) (smul t (ray_B r))))) (\<lambda>Vc.
                   phong_shade (vadd (ray_A r) (smul t (ray_B r))) N Vc LIGHT
                     (sph_col (scene ! nat hit_id)) (Vec 1 1 1) 32))))"
proof -
  from camera_ray_defined [of "screen_u i" "screen_v j"] obtain r
    where r: "camera_ray (screen_u i) (screen_v j) = Inr r" by blast
  from closest_scanned [OF assms, of r] obtain bt hid
    where c: "closest scene r = Inr (bt, hid)" and s: "scanned scene r N_SPHERES bt hid"
    by blast
  have m: "\<forall>k. 0 \<le> k \<and> k < N_SPHERES \<longrightarrow> \<not> flt (intersect_sphere (scene ! nat k) r) bt"
    using s by (simp add: scanned_def)
  have n: "(\<forall>k. 0 \<le> k \<and> k < N_SPHERES \<longrightarrow> intersect_sphere (scene ! nat k) r = INFINITY)
          \<and> pixel_color scene i j = Inr (background (screen_u i) (screen_v j))"
    if "hid = - 1"
  proof -
    have "\<forall>k. 0 \<le> k \<and> k < N_SPHERES \<longrightarrow> intersect_sphere (scene ! nat k) r = INFINITY"
      using s that by (auto simp: scanned_def)
    moreover have "pixel_color scene i j = Inr (background (screen_u i) (screen_v j))"
      using r c that by (simp add: pixel_color_def ebind_def Let_def)
    ultimately show ?thesis by blast
  qed
  have h: "0 \<le> hid \<and> hid < N_SPHERES
          \<and> intersect_sphere (scene ! nat hid) r = bt
          \<and> (\<forall>k. 0 \<le> k \<and> k < N_SPHERES \<and> intersect_sphere (scene ! nat k) r = bt
                 \<longrightarrow> hid \<le> k)
          \<and> pixel_color scene i j = shade_hit scene r bt hid
          \<and> (\<exists>t. 0 < t \<and> bt = Finite t
               \<and> shade_hit scene r bt hid =
                   ebind (norm_vec (vsub (vadd (ray_A r) (smul t (ray_B r)))
                                         (sph_c (scene ! nat hid)))) (\<lambda>N.
                   ebind (norm_vec (vsub ORIGIN (vadd (ray_A r) (smul t (ray_B r))))) (\<lambda>Vc.
                   phong_shade (vadd (ray_A r) (smul t (ray_B r))) N Vc LIGHT
                     (sph_col (scene ! nat hid)) (Vec 1 1 1) 32)))"
    if "hid \<noteq> - 1"
  proof -
    from s that have 1: "0 \<le> hid" "hid < N_SPHERES" "bt = intersect_sphere (scene ! nat hid) r"
      "bt \<noteq> INFINITY" "\<forall>m. 0 \<le> m \<and> m < hid \<longrightarrow> flt bt (intersect_sphere (scene ! nat m) r)"
      by (auto simp: scanned_def)
    from scanned_hit [OF s 1(1) assms] obtain t
      where t: "bt = Finite t" "scene_at scene hid = Inr (scene ! nat hid)"
        "intersect_sphere (scene ! nat hid) r = Finite t"
      by blast
    have pos: "0 < t" using t(3) by (rule intersect_sphere_positive)
    have first: "hid \<le> k" if "0 \<le> k" "intersect_sphere (scene ! nat k) r = bt" for k
    proof (rule ccontr)
      assume "\<not> hid \<le> k"
      with 1(5) that have "flt bt bt" by auto
      then show False by simp
    qed
    have px: "pixel_color scene i j = shade_hit scene r bt hid"
      using r c 1(1) by (simp add: pixel_color_def ebind_def Let_def)
    have sh: "shade_hit scene r bt hid =
                   ebind (norm_vec (vsub (vadd (ray_A r) (smul t (ray_B r)))
                                         (sph_c (scene ! nat hid)))) (\<lambda>N.
                   ebind (norm_vec (vsub ORIGIN (vadd (ray_A r) (smul t (ray_B r))))) (\<lambda>Vc.
                   phong_shade (vadd (ray_A r) (smul t (ray_B r))) N Vc LIGHT
                     (sph_col (scene ! nat hid)) (Vec 1 1 1) 32))"
      unfolding t(1) using t(2) by (rule shade_hit_unfold)
    show ?thesis using 1(1,2,3) first px sh pos t(1) by auto
  qed
  show ?thesis using r c m n h by blast
qed


lemma intersect_sphere_geometry:
  "intersect_sphere (Sphere ce ra co re) r = intersect_sphere (Sphere ce ra co' re') r"
  by (simp add: intersect_sphere_def Sphere_def)

lemma two_color_scene_nth:
  assumes "0 \<le> k" and "k < N_SPHERES"
  shows "\<exists>co. (Sphere ce ra c0 0 # replicate 9 (Sphere ce ra c1 0)) ! nat k = Sphere ce ra co 0"
  using assms by (cases "nat k") (auto simp: N_SPHERES_def)

text \<open>
  Ten spheres of radius 1 around (0,0,-3), the first one red and the other nine blue.
  The ray of the pixel (512, 512) hits all ten at one and the same distance; the scan
  keeps the first, and the color of the pixel is the shading of the red sphere: its red
  channel exceeds its blue channel.
\<close>

theorem scan_selects_first_minimum_witness:
  "\<exists>r t c. camera_ray (screen_u 512) (screen_v 512) = Inr r
     \<and> closest (Sphere (Vec 0 0 (- 3)) 1 (Vec 1 0 0) 0
                 # replicate 9 (Sphere (Vec 0 0 (- 3)) 1 (Vec 0 0 1) 0)) r = Inr (Finite t, 0)
     \<and> pixel_color (Sphere (Vec 0 0 (- 3)) 1 (Vec 1 0 0) 0
                 # replicate 9 (Sphere (Vec 0 0 (- 3)) 1 (Vec 0 0 1) 0)) 512 512
         = shade_hit (Sphere (Vec 0 0 (- 3)) 1 (Vec 1 0 0) 0
                 # replicate 9 (Sphere (Vec 0 0 (- 3)) 1 (Vec 0 0 1) 0)) r (Finite t) 0
     \<and> pixel_color (Sphere (Vec 0 0 (- 3)) 1 (Vec 1 0 0) 0
                 # replicate 9 (Sphere (Vec 0 0 (- 3)) 1 (Vec 0 0 1) 0)) 512 512 = Inr c
     \<and> vec_z c < vec_x c"
proof -
  let ?s0 = "Sphere (Vec 0 0 (- 3)) 1 (Vec 1 0 0) 0"
  let ?scene = "?s0 # replicate 9 (Sphere (Vec 0 0 (- 3)) 1 (Vec 0 0 1) 0)"
  have len: "int (length ?scene) = N_SPHERES" by (simp add: N_SPHERES_def)
  from scan_selects_first_minimum [OF len, of 512 512] obtain r bt hid
    where r: "camera_ray (screen_u 512) (screen_v 512) = Inr r"
      and c: "closest ?scene r = Inr (bt, hid)"
      and n: "hid = - 1 \<longrightarrow>
          (\<forall>k. 0 \<le> k \<and> k < N_SPHERES \<longrightarrow> intersect_sphere (?scene ! nat k) r = INFINITY)"
      and h: "hid \<noteq> - 1 \<longrightarrow>
          0 \<le> hid \<and> hid < N_SPHERES
          \<and> intersect_sphere (?scene ! nat hid) r = bt
          \<and> (\<forall>k. 0 \<le> k \<and> k < N_SPHERES \<and> intersect_sphere (?scene ! nat k) r = bt
                 \<longrightarrow> hid \<le> k)
          \<and> pixel_color ?scene 512 512 = shade_hit ?scene r bt hid
          \<and> (\<exists>t. 0 < t \<and> bt = Finite t
               \<and> shade_hit ?scene r bt hid =
                   ebind (norm_vec (vsub (vadd (ray_A r) (smul t (ray_B r)))
                                         (sph_c (?scene ! nat hid)))) (\<lambda>N.
                   ebind (norm_vec (vsub ORIGIN (vadd (ray_A r) (smul t (ray_B r))))) (\<lambda>Vc.
                   phong_shade (vadd (ray_A r) (smul t (ray_B r))) N Vc LIGHT
                     (sph_col (?scene ! nat hid)) (Vec 1 1 1) 32)))"
    by blast
  from camera_ray_defined [of "screen_u 512" "screen_v 512"] r obtain dir
    where d: "norm_vec (vsub (Vec (screen_u 512) (screen_v 512) 0) ORIGIN) = Inr dir"
      and rd: "r = Ray ORIGIN dir"
    by auto
  have "\<exists>t. intersect_sphere ?s0 (Ray ORIGIN dir) = Finite t"
    by (rule intersect_sphere_hit [OF d])
       (simp_all add: Sphere_def screen_u_def screen_v_def WIDTH_def HEIGHT_def ORIGIN_def
          vsub_def dot_def power2_eq_square)
  then obtain t0 where t0: "intersect_sphere ?s0 r = Finite t0" using rd by blast
  have all: "intersect_sphere (?scene ! nat k) r = Finite t0" if "0 \<le> k" "k < N_SPHERES" for k
  proof -
    from two_color_scene_nth [OF that] obtain co
      where "?scene ! nat k = Sphere (Vec 0 0 (- 3)) 1 co 0" by blast
    then show ?thesis using t0 intersect_sphere_geometry [of "Vec 0 0 (- 3)" 1 co 0 r "Vec 1 0 0" 0]
      by simp
  qed
  have z: "(0::int) \<le> 0 \<and> (0::int) < N_SPHERES" by (simp add: N_SPHERES_def)
  have hit: "hid \<noteq> - 1"
  proof
    assume "hid = - 1"
    with n z have "intersect_sphere (?scene ! nat 0) r = INFINITY" by blast
    with all [of 0] z show False by simp
  qed
  with h have 1: "0 \<le> hid" "hid < N_SPHERES" "intersect_sphere (?scene ! nat hid) r = bt"
    "\<forall>k. 0 \<le> k \<and> k < N_SPHERES \<and> intersect_sphere (?scene ! nat k) r = bt \<longrightarrow> hid \<le> k"
    "pixel_color ?scene 512 512 = shade_hit ?scene r bt hid"
    by blast+
  from 1(1,2,3) all [of hid] have bt: "bt = Finite t0" by simp
  with all [of 0] z have "intersect_sphere (?scene ! nat 0) r = bt" by simp
  with 1(4) z have "hid \<le> 0" by blast
  with 1(1) have hid: "hid = 0" by simp
  from h hit obtain t where t: "bt = Finite t"
    and sh: "shade_hit ?scene r bt hid =
                   ebind (norm_vec (vsub (vadd (ray_A r) (smul t (ray_B r)))
                                         (sph_c (?scene ! nat hid)))) (\<lambda>N.
                   ebind (norm_vec (vsub ORIGIN (vadd (ray_A r) (smul t (ray_B r))))) (\<lambda>Vc.
                   phong_shade (vadd (ray_A r) (smul t (ray_B r))) N Vc LIGHT
                     (sph_col (?scene ! nat hid)) (Vec 1 1 1) 32))"
    by blast
  have rad: "\<forall>s \<in> set ?scene. sph_r s \<noteq> 0" by (simp add: Sphere_def)
  from pixel_color_defined [OF len rad, of 512 512] obtain col
    where col: "pixel_color ?scene 512 512 = Inr col" by blast
  with 1(5) sh have "ebind (norm_vec (vsub (vadd (ray_A r) (smul t (ray_B r)))
                                         (sph_c (?scene ! nat hid)))) (\<lambda>N.
                   ebind (norm_vec (vsub ORIGIN (vadd (ray_A r) (smul t (ray_B r))))) (\<lambda>Vc.
                   phong_shade (vadd (ray_A r) (smul t (ray_B r))) N Vc LIGHT
                     (sph_col (?scene ! nat hid)) (Vec 1 1 1) 32)) = Inr col"
    by simp
  then obtain N Vc where "phong_shade (vadd (ray_A r) (smul t (ray_B r))) N Vc LIGHT
                     (sph_col (?scene ! nat hid)) (Vec 1 1 1) 32 = Inr col"
    by (auto simp: ebind_def split: sum.splits)
  then have "phong_shade (vadd (ray_A r) (smul t (ray_B r))) N Vc LIGHT
                     (Vec 1 0 0) (Vec 1 1 1) 32 = Inr col"
    unfolding hid by (simp add: Sphere_def)
  from phong_shade_result [OF this] obtain diff spec
    where "0 \<le> diff" "col = vadd (vadd (smul 0.1 (Vec 1 0 0)) (smul diff (Vec 1 0 0)))
                               (smul spec (Vec 1 1 1))"
    by blast
  then have lt: "vec_z col < vec_x col" by (simp add: vadd_def smul_def)
  have c': "closest ?scene r = Inr (Finite t0, 0)" using c bt hid by simp
  have p': "pixel_color ?scene 512 512 = shade_hit ?scene r (Finite t0) 0"
    using 1(5) bt hid by simp
  from r c' p' col lt show ?thesis by blast
qed

subsection \<open>The checkered background\<close>

lemma clip_09: "clip 0.9 = 230" by (simp add: clip_def int_of_float_def)
lemma clip_01: "clip 0.1 = 25" by (simp add: clip_def int_of_float_def)

lemma show_int_230: "show_int 230 = ''230''"
  by (simp add: show_int_def show_nat.simps digit_char_def)
lemma show_int_25: "show_int 25 = ''25''"
  by (simp add: show_int_def show_nat.simps digit_char_def)

lemma background_parity:
  "background u v = (if even (\<lfloor>(u + 1) * 5\<rfloor> + \<lfloor>(v + 1) * 5\<rfloor>)
                     then Vec 0.9 0.9 0.9 else Vec 0.1 0.1 0.1)"
  by (simp add: background_def int_of_float_def Let_def and_one_eq mod_2_eq_odd
           del: floor_add_int floor_add2)

lemma screen_u_range: "0 \<le> i \<Longrightarrow> i < WIDTH \<Longrightarrow> - 1 \<le> screen_u i \<and> screen_u i \<le> 1"
  by (simp add: screen_u_def WIDTH_def)

lemma screen_v_range: "0 \<le> j \<Longrightarrow> j < HEIGHT \<Longrightarrow> - 1 \<le> screen_v j \<and> screen_v j \<le> 1"
  by (simp add: screen_v_def HEIGHT_def)

lemma cell_index_range:
  assumes "- 1 \<le> (u::real)" and "u \<le> 1"
  shows "0 \<le> \<lfloor>(u + 1) * 5\<rfloor> \<and> \<lfloor>(u + 1) * 5\<rfloor> \<le> 10"
proof -
  have "0 \<le> (u + 1) * 5" "(u + 1) * 5 \<le> 10" using assms by simp_all
  then show ?thesis by (simp add: floor_le_iff del: floor_add_int floor_add2)
qed

lemma pixel_color_background:
  assumes "int (length scene) = N_SPHERES"
    and "camera_ray (screen_u i) (screen_v j) = Inr r"
    and "\<forall>k. 0 \<le> k \<and> k < N_SPHERES \<longrightarrow> intersect_sphere (scene ! nat k) r = INFINITY"
  shows "pixel_color scene i j = Inr (background (screen_u i) (screen_v j))"
proof -
  from closest_scanned [OF assms(1), of r] obtain bt hid
    where c: "closest scene r = Inr (bt, hid)" and s: "scanned scene r N_SPHERES bt hid"
    by blast
  have "\<not> 0 \<le> hid"
  proof
    assume h: "0 \<le> hid"
    from scanned_hit [OF s h assms(1)] obtain t
      where "hid < N_SPHERES" "intersect_sphere (scene ! nat hid) r = Finite t"
      by blast
    with h assms(3) show False by simp
  qed
  then show ?thesis
    using assms(2) c by (simp add: pixel_color_def ebind_def Let_def)
qed

text \<open>
  C5. For every pixel whose ray hits no sphere, the color is that of the background at
  its coordinates (u, v), a function of u and v alone: with the cell indices
  \<open>ix = floor((u+1)*5)\<close> and \<open>iy = floor((v+1)*5)\<close>, both between 0 and 10, it is
  (0.9, 0.9, 0.9) when \<open>ix + iy\<close> is even and (0.1, 0.1, 0.1) when it is odd. The two colors
  are written as the lines "230 230 230" and "25 25 25".
\<close>

theorem background_checkerboard:
  assumes "0 \<le> i \<and> i < WIDTH \<and> 0 \<le> j \<and> j < HEIGHT"
    and "int (length scene) = N_SPHERES"
    and "camera_ray (screen_u i) (screen_v j) = Inr r"
    and "\<forall>k. 0 \<le> k \<and> k < N_SPHERES \<longrightarrow> intersect_sphere (scene ! nat k) r = INFINITY"
  shows "pixel_color scene i j = Inr (background (screen_u i) (screen_v j))
       \<and> (\<exists>ix iy. ix = \<lfloor>(screen_u i + 1) * 5\<rfloor> \<and> iy = \<lfloor>(screen_v j + 1) * 5\<rfloor>
            \<and> 0 \<le> ix \<and> ix \<le> 10 \<and> 0 \<le> iy \<and> iy \<le> 10
            \<and> background (screen_u i) (screen_v j)
                = (if even (ix + iy) then Vec 0.9 0.9 0.9 else Vec 0.1 0.1 0.1))
       \<and> write_pixel (Vec 0.9 0.9 0.9) = ''230 230 230'' @ [CHR 0x0A]
       \<and> write_pixel (Vec 0.1 0.1 0.1) = ''25 25 25'' @ [CHR 0x0A]"
proof -
  have "pixel_color scene i j = Inr (background (screen_u i) (screen_v j))"
    using assms(2,3,4) by (rule pixel_color_background)
  moreover have "0 \<le> \<lfloor>(screen_u i + 1) * 5\<rfloor> \<and> \<lfloor>(screen_u i + 1) * 5\<rfloor> \<le> 10"
    using assms(1) screen_u_range cell_index_range by blast
  moreover have "0 \<le> \<lfloor>(screen_v j + 1) * 5\<rfloor> \<and> \<lfloor>(screen_v j + 1) * 5\<rfloor> \<le> 10"
    using assms(1) screen_v_range cell_index_range by blast
  moreover have "write_pixel (Vec 0.9 0.9 0.9) = ''230 230 230'' @ [CHR 0x0A]"
    by (simp add: write_pixel_def clip_09 show_int_230)
  moreover have "write_pixel (Vec 0.1 0.1 0.1) = ''25 25 25'' @ [CHR 0x0A]"
    by (simp add: write_pixel_def clip_01 show_int_25)
  ultimately show ?thesis using background_parity by blast
qed

text \<open>
  In the bottom row of the image, pixel 0 (u = -1, cell 0) is light and pixel 103
  (u = -817/1023, cell 1) is dark; their rays pass below all ten spheres.
\<close>

theorem background_checkerboard_witness:
  "pixel_color (build_scene 0 []) 0 0 = Inr (Vec 0.9 0.9 0.9)
   \<and> pixel_color (build_scene 0 []) 103 0 = Inr (Vec 0.1 0.1 0.1)"
proof -
  have light: "background (screen_u 0) (screen_v 0) = Vec 0.9 0.9 0.9"
    by (simp add: background_parity screen_u_def screen_v_def)
  have dark: "background (screen_u 103) (screen_v 0) = Vec 0.1 0.1 0.1"
    by (simp add: background_parity screen_u_def screen_v_def WIDTH_def)
  have "pixel_color (build_scene 0 []) i 0 = Inr (background (screen_u i) (screen_v 0))"
    if i: "i = 0 \<or> i = 103" for i
  proof -
    from camera_ray_defined [of "screen_u i" "screen_v 0"] obtain dir
      where d: "norm_vec (vsub (Vec (screen_u i) (screen_v 0) 0) ORIGIN) = Inr dir"
        "camera_ray (screen_u i) (screen_v 0) = Inr (Ray ORIGIN dir)"
      by blast
    have m: "\<forall>k. 0 \<le> k \<and> k < N_SPHERES \<longrightarrow>
               intersect_sphere (build_scene 0 [] ! nat k) (Ray ORIGIN dir) = INFINITY"
      using bottom_pixels_miss [OF d(1) i] by blast
    have r: "0 \<le> i \<and> i < WIDTH \<and> 0 \<le> (0::int) \<and> 0 < HEIGHT"
      using i by (auto simp: WIDTH_def HEIGHT_def)
    from background_checkerboard [OF r build_scene_length d(2) m] show ?thesis by blast
  qed
  from this [of 0] this [of 103] light dark show ?thesis by simp
qed


subsection \<open>The shading branch\<close>

lemma norm_vec_errors: "norm_vec v \<noteq> Inl InfiniteParameter" "norm_vec v \<noteq> Inl IndexOutOfRange"
  by (simp_all add: norm_vec_def Let_def)

lemma powf_errors: "powf a b \<noteq> Inl InfiniteParameter" "powf a b \<noteq> Inl IndexOutOfRange"
  by (simp_all add: powf_def)

lemma ebind_error:
  assumes "m \<noteq> Inl e" and "\<And>a. f a \<noteq> Inl e"
  shows "ebind m f \<noteq> Inl e"
  using assms by (cases m) (simp_all add: ebind_def)

lemma phong_shade_errors:
  "phong_shade P N V Lpos Kd Ks shin \<noteq> Inl InfiniteParameter"
  "phong_shade P N V Lpos Kd Ks shin \<noteq> Inl IndexOutOfRange"
  unfolding phong_shade_def Let_def
  by (intro ebind_error norm_vec_errors powf_errors; simp)+

lemma shade_hit_errors:
  assumes "scene_at scene hid = Inr s"
  shows "shade_hit scene r (Finite t) hid \<noteq> Inl InfiniteParameter"
    and "shade_hit scene r (Finite t) hid \<noteq> Inl IndexOutOfRange"
  unfolding shade_hit_def assms Let_def
  by (intro ebind_error norm_vec_errors phong_shade_errors; simp)+

lemma pixel_color_errors:
  assumes "int (length scene) = N_SPHERES"
  shows "pixel_color scene i j \<noteq> Inl InfiniteParameter"
    and "pixel_color scene i j \<noteq> Inl IndexOutOfRange"
proof -
  have "pixel_color scene i j \<noteq> Inl InfiniteParameter \<and> pixel_color scene i j \<noteq> Inl IndexOutOfRange"
  proof (cases "camera_ray (screen_u i) (screen_v j)")
    case (Inl e)
    then have "e = ZeroLengthNorm"
      using norm_vec_error [of "vsub (Vec (screen_u i) (screen_v j) 0) ORIGIN"]
      by (cases "norm_vec (vsub (Vec (screen_u i) (screen_v j) 0) ORIGIN)")
         (auto simp: camera_ray_def ebind_def)
    with Inl show ?thesis by (simp add: pixel_color_def ebind_def Let_def)
  next
    case (Inr r)
    from closest_scanned [OF assms, of r] obtain bt hid
      where c: "closest scene r = Inr (bt, hid)" and s: "scanned scene r N_SPHERES bt hid"
      by blast
    show ?thesis
    proof (cases "0 \<le> hid")
      case False
      with Inr c show ?thesis by (simp add: pixel_color_def ebind_def Let_def)
    next
      case True
      from scanned_hit [OF s True assms] obtain t
        where t: "bt = Finite t" "scene_at scene hid = Inr (scene ! nat hid)"
        by blast
      from shade_hit_errors [OF t(2), of r t] Inr c True t(1)
      show ?thesis by (simp add: pixel_color_def ebind_def Let_def)
    qed
  qed
  then show "pixel_color scene i j \<noteq> Inl InfiniteParameter"
    and "pixel_color scene i j \<noteq> Inl IndexOutOfRange" by simp_all
qed

text \<open>
  C10. After the scan, \<open>hit_id\<close> is nonnegative exactly when \<open>best_t\<close> is not the sentinel.
  When the shading branch is taken (\<open>hit_id \<ge> 0\<close>): \<open>hit_id < 10\<close>, so that \<open>scene[hit_id]\<close> is
  inside the vector; \<open>best_t\<close> is what intersect_sphere returned for that sphere, a positive
  finite number; and \<open>r.P(best_t)\<close> is called with that number, never with the sentinel.
  So no pixel ends in a read outside the scene or in a point at infinity.
\<close>

theorem shading_branch_in_bounds:
  assumes "int (length scene) = N_SPHERES"
  shows "(\<exists>best_t hit_id. closest scene r = Inr (best_t, hit_id)
     \<and> ((0 \<le> hit_id) = (best_t \<noteq> INFINITY))
     \<and> (0 \<le> hit_id \<longrightarrow>
          hit_id < 10
        \<and> scene_at scene hit_id = Inr (scene ! nat hit_id)
        \<and> best_t = intersect_sphere (scene ! nat hit_id) r
        \<and> (\<exists>t. 0 < t \<and> best_t = Finite t
               \<and> ray_P r best_t = Inr (vadd (ray_A r) (smul t (ray_B r))))
        \<and> shade_hit scene r best_t hit_id \<noteq> Inl InfiniteParameter
        \<and> shade_hit scene r best_t hit_id \<noteq> Inl IndexOutOfRange))
     \<and> (\<forall>i j. pixel_color scene i j \<noteq> Inl InfiniteParameter
             \<and> pixel_color scene i j \<noteq> Inl IndexOutOfRange)"
proof -
  from closest_scanned [OF assms, of r] obtain bt hid
    where c: "closest scene r = Inr (bt, hid)" and s: "scanned scene r N_SPHERES bt hid"
    by blast
  have iff: "(0 \<le> hid) = (bt \<noteq> INFINITY)" using s by (auto simp: scanned_def)
  have hit: "hid < 10
        \<and> scene_at scene hid = Inr (scene ! nat hid)
        \<and> bt = intersect_sphere (scene ! nat hid) r
        \<and> (\<exists>t. 0 < t \<and> bt = Finite t \<and> ray_P r bt = Inr (vadd (ray_A r) (smul t (ray_B r))))
        \<and> shade_hit scene r bt hid \<noteq> Inl InfiniteParameter
        \<and> shade_hit scene r bt hid \<noteq> Inl IndexOutOfRange" if h: "0 \<le> hid"
  proof -
    from scanned_hit [OF s h assms] obtain t
      where t: "bt = Finite t" "hid < N_SPHERES" "scene_at scene hid = Inr (scene ! nat hid)"
        "intersect_sphere (scene ! nat hid) r = Finite t"
      by blast
    have pos: "0 < t" using t(4) by (rule intersect_sphere_positive)
    from shade_hit_errors [OF t(3), of r t] show ?thesis
      using t pos by (simp add: N_SPHERES_def)
  qed
  show ?thesis using c iff hit pixel_color_errors [OF assms] by blast
qed

lemma closest_ten_copies:
  "closest (replicate 10 (Sphere (Vec 0 0 (- 3)) 1 (Vec 1 1 1) 0)) (Ray (Vec 0 0 2) (Vec 0 0 (- 1)))
     = Inr (Finite 4, 0)"
proof -
  have "intersect_sphere (Sphere (Vec 0 0 (- 3)) 1 (Vec 1 1 1) 0) (Ray (Vec 0 0 2) (Vec 0 0 (- 1)))
          = Finite 4"
    by (simp add: intersect_sphere_def Sphere_def Ray_def dot_def vsub_def)
  then show ?thesis
    by (simp add: closest_def closest_loop.simps N_SPHERES_def scene_at_def)
qed

text \<open>
  The scene of ten copies of one sphere: the branch is taken with \<open>hit_id = 0\<close> and
  \<open>best_t = 4\<close>, and the hit point is (0, 0, -2). The scene that main builds has
  N_SPHERES spheres too, so the theorem is about its pixels.
\<close>

theorem shading_branch_in_bounds_witness:
  "closest (replicate 10 (Sphere (Vec 0 0 (- 3)) 1 (Vec 1 1 1) 0)) (Ray (Vec 0 0 2) (Vec 0 0 (- 1)))
     = Inr (Finite 4, 0)
   \<and> scene_at (replicate 10 (Sphere (Vec 0 0 (- 3)) 1 (Vec 1 1 1) 0)) 0
     = Inr (Sphere (Vec 0 0 (- 3)) 1 (Vec 1 1 1) 0)
   \<and> ray_P (Ray (Vec 0 0 2) (Vec 0 0 (- 1))) (Finite 4) = Inr (Vec 0 0 (- 2))
   \<and> shade_hit (replicate 10 (Sphere (Vec 0 0 (- 3)) 1 (Vec 1 1 1) 0))
        (Ray (Vec 0 0 2) (Vec 0 0 (- 1))) (Finite 4) 0 \<noteq> Inl InfiniteParameter
   \<and> shade_hit (replicate 10 (Sphere (Vec 0 0 (- 3)) 1 (Vec 1 1 1) 0))
        (Ray (Vec 0 0 2) (Vec 0 0 (- 1))) (Finite 4) 0 \<noteq> Inl IndexOutOfRange
   \<and> int (length (build_scene 0 [])) = N_SPHERES
   \<and> pixel_color (build_scene 0 []) 512 512 \<noteq> Inl InfiniteParameter
   \<and> pixel_color (build_scene 0 []) 512 512 \<noteq> Inl IndexOutOfRange"
proof -
  let ?scene = "replicate 10 (Sphere (Vec 0 0 (- 3)) 1 (Vec 1 1 1) 0)"
  let ?r = "Ray (Vec 0 0 2) (Vec 0 0 (- 1))"
  have len: "int (length ?scene) = N_SPHERES" by (simp add: N_SPHERES_def)
  from shading_branch_in_bounds [OF len, of ?r] obtain bt hid
    where c: "closest ?scene ?r = Inr (bt, hid)"
      and h: "0 \<le> hid \<longrightarrow>
          scene_at ?scene hid = Inr (?scene ! nat hid)
        \<and> (\<exists>t. 0 < t \<and> bt = Finite t
               \<and> ray_P ?r bt = Inr (vadd (ray_A ?r) (smul t (ray_B ?r))))
        \<and> shade_hit ?scene ?r bt hid \<noteq> Inl InfiniteParameter
        \<and> shade_hit ?scene ?r bt hid \<noteq> Inl IndexOutOfRange"
    by blast
  from c closest_ten_copies have e: "bt = Finite 4" "hid = 0" by simp_all
  from h have at: "scene_at ?scene 0 = Inr (?scene ! nat 0)"
    and "\<exists>t. 0 < t \<and> Finite 4 = Finite t
               \<and> ray_P ?r (Finite 4) = Inr (vadd (ray_A ?r) (smul t (ray_B ?r)))"
    and sh: "shade_hit ?scene ?r (Finite 4) 0 \<noteq> Inl InfiniteParameter"
      "shade_hit ?scene ?r (Finite 4) 0 \<noteq> Inl IndexOutOfRange"
    unfolding e by simp_all
  then have "ray_P ?r (Finite 4) = Inr (vadd (ray_A ?r) (smul 4 (ray_B ?r)))" by auto
  then have "ray_P ?r (Finite 4) = Inr (Vec 0 0 (- 2))"
    by (simp add: Ray_def vadd_def smul_def)
  moreover from at have "scene_at ?scene 0 = Inr (Sphere (Vec 0 0 (- 3)) 1 (Vec 1 1 1) 0)"
    by simp
  moreover from shading_branch_in_bounds [OF build_scene_length]
  have "pixel_color (build_scene 0 []) 512 512 \<noteq> Inl InfiniteParameter"
    "pixel_color (build_scene 0 []) 512 512 \<noteq> Inl IndexOutOfRange"
    by blast+
  ultimately show ?thesis using closest_ten_copies sh build_scene_length by blast
qed

subsection \<open>The range of clip\<close>



subsection \<open>The output stream\<close>

















subsection \<open>The reflectivity is not read\<close>

lemma ebind_Inl: "ebind (Inl e) f = Inl e"
  by (simp add: ebind_def)

lemma ebind_Inr: "ebind (Inr a) f = f a"
  by (simp add: ebind_def)

lemma intersect_sphere_same: "same_geometry s s' \<Longrightarrow> intersect_sphere s r = intersect_sphere s' r"
  by (simp add: same_geometry_def intersect_sphere_def)

lemma scene_at_same:
  assumes "list_all2 same_geometry scene scene'"
  shows "(scene_at scene k = Inl IndexOutOfRange \<and> scene_at scene' k = Inl IndexOutOfRange)
       \<or> (\<exists>s s'. scene_at scene k = Inr s \<and> scene_at scene' k = Inr s' \<and> same_geometry s s')"
proof (cases "0 \<le> k \<and> k < int (length scene)")
  case True
  then have "nat k < length scene" by linarith
  with assms have "same_geometry (scene ! nat k) (scene' ! nat k)" by (rule list_all2_nthD)
  moreover have "length scene = length scene'" using assms by (rule list_all2_lengthD)
  ultimately show ?thesis using True by (simp add: scene_at_def)
next
  case False
  moreover have "length scene = length scene'" using assms by (rule list_all2_lengthD)
  ultimately show ?thesis by (auto simp: scene_at_def)
qed

lemma closest_loop_same:
  "list_all2 same_geometry scene scene' \<Longrightarrow>
   closest_loop scene r k bt hid = closest_loop scene' r k bt hid"
proof (induction scene r k bt hid rule: closest_loop.induct)
  case (1 scene r k best_t hit_id)
  show ?case
  proof (cases "k < N_SPHERES")
    case False
    then show ?thesis by (simp add: closest_loop.simps [of _ _ k])
  next
    case True
    from scene_at_same [OF "1.prems", of k] show ?thesis
    proof (elim disjE conjE exE)
      assume "scene_at scene k = Inl IndexOutOfRange" "scene_at scene' k = Inl IndexOutOfRange"
      then show ?thesis using True by (simp add: closest_loop.simps [of _ _ k])
    next
      fix s s'
      assume at: "scene_at scene k = Inr s" "scene_at scene' k = Inr s'" and g: "same_geometry s s'"
      have i: "intersect_sphere s' r = intersect_sphere s r"
        using g by (simp add: intersect_sphere_same)
      show ?thesis
      proof (cases "flt (intersect_sphere s r) best_t")
        case less: True
        from "1.IH"(1) [OF True at(1) refl less "1.prems"] show ?thesis
          using True at less i by (simp add: closest_loop.simps [of _ _ k] Let_def)
      next
        case keep: False
        from "1.IH"(2) [OF True at(1) refl keep "1.prems"] show ?thesis
          using True at keep i by (simp add: closest_loop.simps [of _ _ k] Let_def)
      qed
    qed
  qed
qed

lemma shade_hit_same:
  assumes "list_all2 same_geometry scene scene'"
  shows "shade_hit scene r bt hid = shade_hit scene' r bt hid"
proof (cases "ray_P r bt")
  case (Inl e)
  then show ?thesis by (simp add: shade_hit_def ebind_Inl)
next
  case (Inr P)
  from scene_at_same [OF assms, of hid] show ?thesis
    using Inr by (auto simp: shade_hit_def ebind_Inl ebind_Inr same_geometry_def)
qed

lemma pixel_color_same:
  assumes "list_all2 same_geometry scene scene'"
  shows "pixel_color scene i j = pixel_color scene' i j"
proof -
  have a: "closest_loop scene = closest_loop scene'"
    using closest_loop_same [OF assms] by (intro ext)
  have b: "shade_hit scene = shade_hit scene'"
    using shade_hit_same [OF assms] by (intro ext)
  show ?thesis unfolding pixel_color_def closest_def a b by (rule refl)
qed

lemma col_loop_same:
  "list_all2 same_geometry scene scene' \<Longrightarrow> col_loop scene j i out = col_loop scene' j i out"
proof (induction scene j i out rule: col_loop.induct)
  case (1 scene j i out)
  have p: "pixel_color scene' i j = pixel_color scene i j"
    using "1.prems" by (simp add: pixel_color_same)
  show ?case
  proof (cases "i < WIDTH")
    case False
    then show ?thesis by (simp add: col_loop.simps [of _ j i])
  next
    case True
    show ?thesis
    proof (cases "pixel_color scene i j")
      case (Inl e)
      then show ?thesis using True p by (simp add: col_loop.simps [of _ j i])
    next
      case (Inr c)
      from "1.IH" [OF True Inr "1.prems"] show ?thesis
        using True p Inr by (simp add: col_loop.simps [of _ j i])
    qed
  qed
qed

lemma row_loop_same:
  "list_all2 same_geometry scene scene' \<Longrightarrow> row_loop scene j out = row_loop scene' j out"
proof (induction scene j out rule: row_loop.induct)
  case (1 scene j out)
  have c: "col_loop scene' j 0 out = col_loop scene j 0 out"
    using "1.prems" by (simp add: col_loop_same)
  show ?case
  proof (cases "0 \<le> j")
    case False
    then show ?thesis by (simp add: row_loop.simps [of _ j])
  next
    case True
    show ?thesis
    proof (cases "col_loop scene j 0 out")
      case (Inl e)
      then show ?thesis using True c by (simp add: row_loop.simps [of _ j])
    next
      case (Inr out')
      from "1.IH" [OF True Inr "1.prems"] show ?thesis
        using True c Inr by (simp add: row_loop.simps [of _ j])
    qed
  qed
qed

text \<open>
  C9. Two scenes whose spheres have, one by one, the same center, radius and color, and
  any reflectivity, give the same output stream, the same color of every pixel and the
  same result of every scan.
\<close>

theorem reflectivity_inert:
  assumes "list_all2 (\<lambda>s s'. sph_c s = sph_c s' \<and> sph_r s = sph_r s' \<and> sph_col s = sph_col s')
             scene scene'"
  shows "render scene = render scene'
       \<and> (\<forall>i j. pixel_color scene i j = pixel_color scene' i j)
       \<and> (\<forall>r. closest scene r = closest scene' r)"
proof -
  have g: "list_all2 same_geometry scene scene'"
    using assms by (simp add: same_geometry_def [abs_def])
  show ?thesis
    using row_loop_same [OF g] pixel_color_same [OF g] closest_loop_same [OF g]
    by (simp add: render_def closest_def)
qed

text \<open>The scene of the program, and the same scene with every reflectivity set to 1.\<close>

theorem reflectivity_inert_witness:
  "map (\<lambda>s. s\<lparr>sph_refl := 1\<rparr>) (build_scene 0 []) \<noteq> build_scene 0 []
   \<and> render (build_scene 0 []) = render (map (\<lambda>s. s\<lparr>sph_refl := 1\<rparr>) (build_scene 0 []))"
proof -
  have "list_all2 (\<lambda>s s'. sph_c s = sph_c s' \<and> sph_r s = sph_r s' \<and> sph_col s = sph_col s')
          (build_scene 0 []) (map (\<lambda>s. s\<lparr>sph_refl := 1\<rparr>) (build_scene 0 []))"
    by (simp add: list_all2_map2 list_all2_same)
  from reflectivity_inert [OF this]
  have "render (build_scene 0 []) = render (map (\<lambda>s. s\<lparr>sph_refl := 1\<rparr>) (build_scene 0 []))"
    by blast
  moreover have "map (\<lambda>s. s\<lparr>sph_refl := 1\<rparr>) (build_scene 0 []) \<noteq> build_scene 0 []"
    by (simp add: build_scene_eq upto_rec1 new_sphere_def Sphere_def Let_def)
  ultimately show ?thesis by simp
qed

section \<open>Theorems about the three numeric functions, in binary32\<close>

subsection \<open>Rounding\<close>

lemma pow2_powr: "pow2 e = 2 powr real_of_int e"
  by (simp add: pow2_def powr_real_of_int inverse_eq_divide)

lemma pow2_pos [simp]: "0 < pow2 e"
  by (simp add: pow2_powr)

lemma pow2_nonneg [simp]: "0 \<le> pow2 e"
  using pow2_pos [of e] by linarith

lemma pow2_neq_0 [simp]: "pow2 e \<noteq> 0"
  using pow2_pos [of e] by linarith

lemma abs_pow2 [simp]: "\<bar>pow2 e\<bar> = pow2 e"
  by simp

lemma pow2_add: "pow2 (a + b) = pow2 a * pow2 b"
  by (simp add: pow2_powr powr_add)

lemma pow2_diff: "pow2 (a - b) = pow2 a / pow2 b"
  by (simp add: pow2_powr powr_diff)

lemma pow2_nat: "0 \<le> e \<Longrightarrow> pow2 e = 2 ^ nat e"
  by (simp add: pow2_def)

lemma pow2_less_iff [simp]: "pow2 a < pow2 b \<longleftrightarrow> a < b"
  by (simp add: pow2_powr)

lemma pow2_le_iff [simp]: "pow2 a \<le> pow2 b \<longleftrightarrow> a \<le> b"
  by (simp add: pow2_powr)

lemma floor_log2_bounds:
  assumes "0 < x"
  shows "pow2 \<lfloor>log 2 x\<rfloor> \<le> x" and "x < pow2 (\<lfloor>log 2 x\<rfloor> + 1)"
proof -
  have "real_of_int \<lfloor>log 2 x\<rfloor> \<le> log 2 x" by simp
  then have "2 powr real_of_int \<lfloor>log 2 x\<rfloor> \<le> 2 powr log 2 x" by (simp only: powr_le_cancel_iff) 
  then show "pow2 \<lfloor>log 2 x\<rfloor> \<le> x" using assms by (simp add: pow2_powr)
  have "log 2 x < real_of_int (\<lfloor>log 2 x\<rfloor> + 1)" by linarith
  then have "2 powr log 2 x < 2 powr real_of_int (\<lfloor>log 2 x\<rfloor> + 1)" by (simp only: powr_less_cancel_iff)
  then show "x < pow2 (\<lfloor>log 2 x\<rfloor> + 1)" using assms by (simp add: pow2_powr)
qed

lemma floor_log2_eq:
  assumes "pow2 e \<le> x" and "x < pow2 (e + 1)"
  shows "\<lfloor>log 2 x\<rfloor> = e"
proof -
  have x: "0 < x" using assms(1) pow2_pos [of e] by linarith
  have "pow2 e < pow2 (\<lfloor>log 2 x\<rfloor> + 1)" using assms(1) floor_log2_bounds(2) [OF x] by linarith
  moreover have "pow2 \<lfloor>log 2 x\<rfloor> < pow2 (e + 1)" using assms(2) floor_log2_bounds(1) [OF x] by linarith
  ultimately show ?thesis by simp
qed

lemma expo_bounds:
  assumes "x \<noteq> 0"
  shows "- 126 \<le> expo x" and "\<bar>x\<bar> < pow2 (expo x + 1)"
    and "- 126 < expo x \<Longrightarrow> pow2 (expo x) \<le> \<bar>x\<bar>"
proof -
  have x: "0 < \<bar>x\<bar>" using assms by simp
  show "- 126 \<le> expo x" by (simp add: expo_def)
  have "\<bar>x\<bar> < pow2 (\<lfloor>log 2 \<bar>x\<bar>\<rfloor> + 1)" using x by (rule floor_log2_bounds)
  also have "\<dots> \<le> pow2 (expo x + 1)" by (simp add: expo_def)
  finally show "\<bar>x\<bar> < pow2 (expo x + 1)" .
  show "pow2 (expo x) \<le> \<bar>x\<bar>" if "- 126 < expo x"
  proof -
    from that have "expo x = \<lfloor>log 2 \<bar>x\<bar>\<rfloor>" by (simp add: expo_def max_def split: if_splits)
    then show ?thesis using floor_log2_bounds(1) [OF x] by simp
  qed
qed

lemma expo_normal:
  assumes "pow2 e \<le> \<bar>x\<bar>" and "\<bar>x\<bar> < pow2 (e + 1)" and "- 126 \<le> e"
  shows "expo x = e"
  using floor_log2_eq [OF assms(1,2)] assms(3) by (simp add: expo_def)

lemma expo_subnormal:
  assumes "x \<noteq> 0" and "\<bar>x\<bar> < pow2 (- 126)"
  shows "expo x = - 126"
proof -
  have x: "0 < \<bar>x\<bar>" using assms by simp
  have "pow2 \<lfloor>log 2 \<bar>x\<bar>\<rfloor> < pow2 (- 126)" using floor_log2_bounds(1) [OF x] assms(2) by linarith
  then show ?thesis by (simp add: expo_def)
qed

lemma round_even_of_int [simp]: "round_even (real_of_int n) = n"
  by (simp add: round_even_def)

lemma round_even_le:
  assumes "q \<le> real_of_int a"
  shows "round_even q \<le> a"
proof (cases "q = real_of_int a")
  case True
  then show ?thesis by simp
next
  case False
  with assms have "q < real_of_int a" by simp
  then have "\<lfloor>q\<rfloor> < a" by (simp add: floor_less_iff)
  then show ?thesis by (simp add: round_even_def Let_def)
qed

lemma round_even_ge:
  assumes "real_of_int a \<le> q"
  shows "a \<le> round_even q"
proof -
  have "a \<le> \<lfloor>q\<rfloor>" using assms by (simp add: le_floor_iff)
  then show ?thesis by (simp add: round_even_def Let_def)
qed

lemma pow2_24: "pow2 24 = 2 ^ 24"
  by (simp add: pow2_def)

lemma pow2_128: "pow2 128 = 2 ^ 128"
  by (simp add: pow2_def)

lemma rnd_eval:
  assumes "pow2 e \<le> \<bar>x\<bar>" and "\<bar>x\<bar> < pow2 (e + 1)" and "- 126 \<le> e"
    and "round_even (x / pow2 (e - 23)) = n"
    and "y = real_of_int n * pow2 (e - 23)"
    and "\<bar>y\<bar> < 2 ^ 128"
  shows "rnd x = Fin y"
proof -
  have "0 < \<bar>x\<bar>" using assms(1) pow2_pos [of e] by linarith
  then have "x \<noteq> 0" by simp
  moreover have "expo x = e" using assms(1,2,3) by (rule expo_normal)
  ultimately show ?thesis using assms(4,5,6) by (simp add: rnd_def Let_def)
qed

lemma rnd_overflow:
  assumes "pow2 e \<le> x" and "x < pow2 (e + 1)" and "128 \<le> e"
  shows "rnd x = PInf"
proof -
  have x: "0 < x" using assms(1) pow2_pos [of e] by linarith
  have ax: "\<bar>x\<bar> = x" using x by simp
  have "pow2 e \<le> \<bar>x\<bar>" "\<bar>x\<bar> < pow2 (e + 1)" "- 126 \<le> e"
    using assms x by simp_all
  then have e: "expo x = e" by (rule expo_normal)
  have p23: "real_of_int (2 ^ 23) = pow2 23" by (simp add: pow2_def)
  have "pow2 e / pow2 (e - 23) = pow2 (e - (e - 23))" by (simp only: pow2_diff)
  then have "real_of_int (2 ^ 23) = pow2 e / pow2 (e - 23)" unfolding p23 by simp
  also have "\<dots> \<le> x / pow2 (e - 23)" using assms(1) by (simp add: divide_right_mono)
  finally have "2 ^ 23 \<le> round_even (x / pow2 (e - 23))" by (rule round_even_ge)
  then have "real_of_int (2 ^ 23) \<le> real_of_int (round_even (x / pow2 (e - 23)))"
    by (simp only: of_int_le_iff)
  then have "real_of_int (2 ^ 23) * pow2 (e - 23)
             \<le> real_of_int (round_even (x / pow2 (e - 23))) * pow2 (e - 23)"
    by (simp only: mult_le_cancel_right_pos pow2_pos)
  moreover have "real_of_int (2 ^ 23) * pow2 (e - 23) = pow2 e"
    unfolding p23 pow2_add [symmetric] by simp
  moreover have "pow2 128 \<le> pow2 e" using assms(3) by simp
  ultimately have "2 ^ 128 \<le> real_of_int (round_even (x / pow2 (e - 23))) * pow2 (e - 23)"
    by (simp only: pow2_128)
  then have "2 ^ 128 \<le> \<bar>real_of_int (round_even (x / pow2 (e - 23))) * pow2 (e - 23)\<bar>"
    by linarith
  then show ?thesis using x e by (simp add: rnd_def Let_def)
qed

lemma pow2_int: "0 \<le> e \<Longrightarrow> pow2 e = real_of_int (2 ^ nat e)"
  by (simp add: pow2_def)

lemma grid_multiple:
  assumes "a = real_of_int m * pow2 k" and "j \<le> k"
  shows "a / pow2 j = real_of_int (m * 2 ^ nat (k - j))"
proof -
  have "a / pow2 j = real_of_int m * (pow2 k / pow2 j)" using assms(1) by simp
  also have "pow2 k / pow2 j = pow2 (k - j)" by (simp add: pow2_diff)
  also have "\<dots> = real_of_int (2 ^ nat (k - j))" using assms(2) by (simp add: pow2_int)
  finally show ?thesis by simp
qed

lemma grid_abs_less:
  assumes "a = real_of_int m * pow2 k" and "\<bar>m\<bar> < 2 ^ 24"
  shows "\<bar>a\<bar> < pow2 (24 + k)"
proof -
  have "real_of_int \<bar>m\<bar> < real_of_int (2 ^ 24)" using assms(2) by (simp only: of_int_less_iff)
  then have "real_of_int \<bar>m\<bar> < pow2 24" by (simp add: pow2_24)
  then have "real_of_int \<bar>m\<bar> * pow2 k < pow2 24 * pow2 k" by simp
  moreover have "\<bar>a\<bar> = real_of_int \<bar>m\<bar> * pow2 k" using assms(1) by (simp add: abs_mult)
  ultimately show ?thesis by (simp only: pow2_add)
qed

lemma expo_below_grid:
  assumes "x \<noteq> 0" and "\<bar>x\<bar> \<le> \<bar>a\<bar>" and "a = real_of_int m * pow2 k" and "\<bar>m\<bar> < 2 ^ 24"
    and "- 149 \<le> k"
  shows "expo x - 23 \<le> k"
proof (cases "- 126 < expo x")
  case False
  then have "expo x = - 126" using expo_bounds(1) [OF assms(1)] by linarith
  then show ?thesis using assms(5) by simp
next
  case True
  have "pow2 (expo x) \<le> \<bar>x\<bar>" using assms(1) True by (rule expo_bounds(3))
  also have "\<bar>x\<bar> \<le> \<bar>a\<bar>" by (rule assms(2))
  also have "\<bar>a\<bar> < pow2 (24 + k)" using assms(3,4) by (rule grid_abs_less)
  finally have "expo x < 24 + k" by simp
  then show ?thesis by simp
qed

lemma rnd_exact:
  assumes "x = real_of_int m * pow2 k" and "\<bar>m\<bar> < 2 ^ 24" and "- 149 \<le> k" and "k \<le> 104"
  shows "rnd x = Fin x"
proof (cases "x = 0")
  case True
  then show ?thesis by (simp add: rnd_def)
next
  case False
  have j: "expo x - 23 \<le> k"
    using False _ assms(1,2,3) by (rule expo_below_grid) simp
  have q: "x / pow2 (expo x - 23) = real_of_int (m * 2 ^ nat (k - (expo x - 23)))"
    using assms(1) j by (rule grid_multiple)
  have y: "real_of_int (round_even (x / pow2 (expo x - 23))) * pow2 (expo x - 23) = x"
    unfolding q round_even_of_int unfolding q [symmetric] by simp
  have "\<bar>x\<bar> < pow2 (24 + k)" using assms(1,2) by (rule grid_abs_less)
  also have "\<dots> \<le> pow2 128" using assms(4) by simp
  finally have "\<bar>x\<bar> < 2 ^ 128" by (simp only: pow2_128)
  then show ?thesis using False y by (simp add: rnd_def Let_def)
qed

lemma rnd_below_grid:
  assumes "0 < x" and "x \<le> a" and "a = real_of_int m * pow2 k" and "\<bar>m\<bar> < 2 ^ 24"
    and "- 149 \<le> k" and "k \<le> 104"
  shows "\<exists>y. rnd x = Fin y \<and> 0 \<le> y \<and> y \<le> a"
proof -
  let ?u = "pow2 (expo x - 23)"
  let ?n = "round_even (x / ?u)"
  have x0: "x \<noteq> 0" using assms(1) by simp
  have a0: "0 < a" using assms(1,2) by linarith
  have j: "expo x - 23 \<le> k"
    using x0 _ assms(3,4,5) by (rule expo_below_grid) (use assms(1,2) in simp)
  have q: "a / ?u = real_of_int (m * 2 ^ nat (k - (expo x - 23)))"
    using assms(3) j by (rule grid_multiple)
  have "x / ?u \<le> a / ?u" using assms(2) by (simp add: divide_right_mono)
  then have "?n \<le> m * 2 ^ nat (k - (expo x - 23))" unfolding q by (rule round_even_le)
  then have "real_of_int ?n \<le> a / ?u" unfolding q by (simp only: of_int_le_iff)
  then have le: "real_of_int ?n * ?u \<le> a" by (simp add: pos_le_divide_eq)
  have "real_of_int 0 \<le> x / ?u" using assms(1) by simp
  then have "0 \<le> ?n" by (rule round_even_ge)
  then have ge: "0 \<le> real_of_int ?n * ?u" by simp
  have "\<bar>a\<bar> < pow2 (24 + k)" using assms(3,4) by (rule grid_abs_less)
  also have "\<dots> \<le> pow2 128" using assms(6) by simp
  finally have "a < 2 ^ 128" using a0 by (simp only: pow2_128 abs_of_pos)
  with le ge have "\<bar>real_of_int ?n * ?u\<bar> < 2 ^ 128" by simp
  then have "rnd x = Fin (real_of_int ?n * ?u)" using x0 by (simp add: rnd_def Let_def)
  with le ge show ?thesis by blast
qed


lemma rnd_0 [simp]: "rnd 0 = Fin 0"
  by (simp add: rnd_def)

lemma rnd_1 [simp]: "rnd 1 = Fin 1"
  by (rule rnd_exact [of _ 1 0]) (simp_all add: pow2_def)

lemma rnd_numeral [simp]:
  "(numeral n :: int) < 2 ^ 24 \<Longrightarrow> rnd (numeral n) = Fin (numeral n)"
  by (rule rnd_exact [of _ "numeral n" 0]) (simp_all add: pow2_def)

lemma rnd_neg_numeral [simp]:
  "(numeral n :: int) < 2 ^ 24 \<Longrightarrow> rnd (- numeral n) = Fin (- numeral n)"
  by (rule rnd_exact [of _ "- numeral n" 0]) (simp_all add: pow2_def)

lemma rnd_neg_1 [simp]: "rnd (- 1) = Fin (- 1)"
  by (rule rnd_exact [of _ "- 1" 0]) (simp_all add: pow2_def)

subsection \<open>The intersection test\<close>

lemma le32_not_gt32: "le32 t (Fin 0) \<Longrightarrow> \<not> gt32 t (Fin 0)"
  by (cases t) (simp_all add: gt32_def)

lemma gt32_zero_cases: "gt32 t (Fin 0) \<Longrightarrow> t = PInf \<or> (\<exists>a. 0 < a \<and> t = Fin a)"
  by (cases t) (simp_all add: gt32_def)

lemma intersect_sphere32_range:
  "intersect_sphere32 s r = PInf \<or> (\<exists>a. 0 < a \<and> intersect_sphere32 s r = Fin a)"
  unfolding intersect_sphere32_def Let_def using gt32_zero_cases by auto

lemma rnd_c1_1: "rnd (12582913 / 16777216) = Fin (12582913 / 16777216)"
  by (rule rnd_exact [of _ "12582913" "- 24"]) (simp_all add: pow2_def)

lemma rnd_c1_2: "rnd (158329699565569 / 281474976710656) = Fin (4718593 / 8388608)"
  by (rule rnd_eval [of "- 1" _ "9437186"]) (simp_all add: pow2_def round_even_def)

lemma rnd_c1_3: "rnd (4718593 / 8388608) = Fin (4718593 / 8388608)"
  by (rule rnd_exact [of _ "4718593" "- 23"]) (simp_all add: pow2_def)

lemma rnd_c1_4: "rnd (214433793 / 8388608) = Fin (409 / 16)"
  by (rule rnd_eval [of "4" _ "13402112"]) (simp_all add: pow2_def round_even_def)

lemma rnd_c1_5: "rnd (9 / 16) = Fin (9 / 16)"
  by (rule rnd_exact [of _ "9" "- 4"]) (simp_all add: pow2_def)

lemma rnd_c1_6: "rnd (100000000000000000000) = Fin (100000002004087734272)"
  by (rule rnd_eval [of "66" _ "11368684"]) (simp_all add: pow2_def round_even_def)

lemma rnd_c1_7: "rnd (100000002004087734272) = Fin (100000002004087734272)"
  by (rule rnd_exact [of _ "2842171" "45"]) (simp_all add: pow2_def)

lemma rnd_c1_8: "rnd (- 100000002004087734272) = Fin (- 100000002004087734272)"
  by (rule rnd_exact [of _ "- 2842171" "45"]) (simp_all add: pow2_def)

lemma rnd_c1_9: "rnd (10000000400817550870767646659478483369984) = PInf"
  by (rule rnd_overflow [of "132"]) (simp_all add: pow2_def)

lemmas c1_defs = vsub32_def dot32_def sub32_def gt32_def Let_def
  Sphere32_def Ray32_def Vec32_def

text \<open>
  C1. For every sphere and ray, in binary32, with \<open>oc = origin - center\<close>,
  \<open>b = dot(direction, oc)\<close>, \<open>c = dot(oc,oc) - radius*radius\<close> and \<open>disc = b*b - c\<close>:
  intersect_sphere returns the sentinel \<^verbatim>\<open>INFINITY\<close> when \<open>disc < 0\<close>; otherwise, with
  \<open>t = -b - sqrtf(disc)\<close>, it returns the sentinel when \<open>t \<le> 0\<close> and \<open>t\<close> when \<open>t > 0\<close>. The
  one case left, \<open>t\<close> neither \<open>\<le> 0\<close> nor \<open>> 0\<close>, is \<open>t\<close> a NaN, and the sentinel is returned. On
  finite numbers the comparisons are those of the reals and \<^verbatim>\<open>sqrtf\<close> is the rounded square
  root. The result is the sentinel or a positive finite number, never a NaN.
\<close>

theorem intersect_sphere32_cases:
  fixes s :: sphere32 and r :: ray32 and dv tv :: real
  defines "oc \<equiv> vsub32 (A32 r) (c32 s)"
  defines "b \<equiv> dot32 (B32 r) oc"
  defines "c \<equiv> sub32 (dot32 oc oc) (mul32 (r32 s) (r32 s))"
  defines "disc \<equiv> sub32 (mul32 b b) c"
  defines "t \<equiv> sub32 (neg32 b) (sqrt32 disc)"
  shows "(lt32 disc (Fin 0) \<longrightarrow> intersect_sphere32 s r = PInf)
       \<and> (\<not> lt32 disc (Fin 0) \<and> le32 t (Fin 0) \<longrightarrow> intersect_sphere32 s r = PInf)
       \<and> (\<not> lt32 disc (Fin 0) \<and> gt32 t (Fin 0) \<longrightarrow> intersect_sphere32 s r = t)
       \<and> (\<not> lt32 disc (Fin 0) \<and> \<not> le32 t (Fin 0) \<and> \<not> gt32 t (Fin 0)
            \<longrightarrow> t = NaN \<and> intersect_sphere32 s r = PInf)
       \<and> (disc = Fin dv \<longrightarrow> (lt32 disc (Fin 0) \<longleftrightarrow> dv < 0))
       \<and> (disc = Fin dv \<and> 0 \<le> dv \<longrightarrow> sqrt32 disc = rnd (sqrt dv))
       \<and> (t = Fin tv \<longrightarrow> (le32 t (Fin 0) \<longleftrightarrow> tv \<le> 0) \<and> (gt32 t (Fin 0) \<longleftrightarrow> 0 < tv))
       \<and> (intersect_sphere32 s r = PInf
            \<or> (\<exists>a. 0 < a \<and> intersect_sphere32 s r = Fin a))"
proof -
  have 1: "lt32 disc (Fin 0) \<longrightarrow> intersect_sphere32 s r = PInf"
    unfolding intersect_sphere32_def Let_def oc_def b_def c_def disc_def t_def by simp
  have 2: "\<not> lt32 disc (Fin 0) \<and> le32 t (Fin 0) \<longrightarrow> intersect_sphere32 s r = PInf"
    unfolding intersect_sphere32_def Let_def oc_def b_def c_def disc_def t_def
    using le32_not_gt32 by auto
  have 3: "\<not> lt32 disc (Fin 0) \<and> gt32 t (Fin 0) \<longrightarrow> intersect_sphere32 s r = t"
    unfolding intersect_sphere32_def Let_def oc_def b_def c_def disc_def t_def by simp
  have 4: "\<not> lt32 disc (Fin 0) \<and> \<not> le32 t (Fin 0) \<and> \<not> gt32 t (Fin 0)
            \<longrightarrow> intersect_sphere32 s r = PInf"
    unfolding intersect_sphere32_def Let_def oc_def b_def c_def disc_def t_def by simp
  have 5: "\<not> le32 t (Fin 0) \<and> \<not> gt32 t (Fin 0) \<longrightarrow> t = NaN"
    by (cases t) (auto simp: gt32_def)
  have 6: "disc = Fin dv \<longrightarrow> (lt32 disc (Fin 0) \<longleftrightarrow> dv < 0)" by simp
  have 7: "disc = Fin dv \<and> 0 \<le> dv \<longrightarrow> sqrt32 disc = rnd (sqrt dv)" by simp
  have 8: "t = Fin tv \<longrightarrow> (le32 t (Fin 0) \<longleftrightarrow> tv \<le> 0) \<and> (gt32 t (Fin 0) \<longleftrightarrow> 0 < tv)"
    by (simp add: gt32_def)
  show ?thesis using 1 2 3 4 5 6 7 8 intersect_sphere32_range [of s r] by blast
qed

text \<open>
  The sphere of radius 1 around (0,0,-3): from (0,0,2) the ray along -z hits it at t = 4,
  the ray along +y misses it (disc = -24) and the ray along +z has it behind (t = -6);
  from (0,0,-2), on the sphere, the ray along +x is tangent (disc = 0, t = 0), a miss.
  Two inputs where the rounding decides. The sphere of radius 0.75 around the origin and
  the ray from (0.75 + 2^-24, 0, 5) along -z: in exact arithmetic the ray passes outside
  the sphere, in binary32 \<open>dot(oc,oc)\<close> is rounded, disc is 0 and the result is t = 5. The
  sphere of radius 1 around (0, 0, -1e20f) and the ray from the origin along -z:
  \<open>dot(oc,oc)\<close> overflows, disc is \<open>inf - inf\<close>, a NaN, and the result is the sentinel.
\<close>

theorem intersect_sphere32_cases_witness:
  "intersect_sphere32
     (Sphere32 (Vec32 (Fin 0) (Fin 0) (Fin (- 3))) (Fin 1) (Vec32 (Fin 1) (Fin 1) (Fin 1)) (Fin 0))
     (Ray32 (Vec32 (Fin 0) (Fin 0) (Fin 2)) (Vec32 (Fin 0) (Fin 0) (Fin (- 1)))) = Fin 4
   \<and> intersect_sphere32
     (Sphere32 (Vec32 (Fin 0) (Fin 0) (Fin (- 3))) (Fin 1) (Vec32 (Fin 1) (Fin 1) (Fin 1)) (Fin 0))
     (Ray32 (Vec32 (Fin 0) (Fin 0) (Fin 2)) (Vec32 (Fin 0) (Fin 1) (Fin 0))) = PInf
   \<and> intersect_sphere32
     (Sphere32 (Vec32 (Fin 0) (Fin 0) (Fin (- 3))) (Fin 1) (Vec32 (Fin 1) (Fin 1) (Fin 1)) (Fin 0))
     (Ray32 (Vec32 (Fin 0) (Fin 0) (Fin 2)) (Vec32 (Fin 0) (Fin 0) (Fin 1))) = PInf
   \<and> intersect_sphere32
     (Sphere32 (Vec32 (Fin 0) (Fin 0) (Fin (- 3))) (Fin 1) (Vec32 (Fin 1) (Fin 1) (Fin 1)) (Fin 0))
     (Ray32 (Vec32 (Fin 0) (Fin 0) (Fin (- 2))) (Vec32 (Fin 1) (Fin 0) (Fin 0))) = PInf
   \<and> intersect_sphere32
     (Sphere32 (Vec32 (Fin 0) (Fin 0) (Fin 0)) (Fin (3 / 4)) (Vec32 (Fin 1) (Fin 1) (Fin 1)) (Fin 0))
     (Ray32 (Vec32 (Fin (12582913 / 16777216)) (Fin 0) (Fin 5)) (Vec32 (Fin 0) (Fin 0) (Fin (- 1))))
       = Fin 5
   \<and> intersect_sphere32
     (Sphere32 (Vec32 (Fin 0) (Fin 0) (neg32 (rnd 100000000000000000000))) (Fin 1)
        (Vec32 (Fin 1) (Fin 1) (Fin 1)) (Fin 0))
     (Ray32 (Vec32 (Fin 0) (Fin 0) (Fin 0)) (Vec32 (Fin 0) (Fin 0) (Fin (- 1)))) = PInf"
proof -
  have hit: "intersect_sphere32
     (Sphere32 (Vec32 (Fin 0) (Fin 0) (Fin (- 3))) (Fin 1) (Vec32 (Fin 1) (Fin 1) (Fin 1)) (Fin 0))
     (Ray32 (Vec32 (Fin 0) (Fin 0) (Fin 2)) (Vec32 (Fin 0) (Fin 0) (Fin (- 1)))) = Fin 4"
    using intersect_sphere32_cases [where s =
     "Sphere32 (Vec32 (Fin 0) (Fin 0) (Fin (- 3))) (Fin 1) (Vec32 (Fin 1) (Fin 1) (Fin 1)) (Fin 0)"
     and r = "Ray32 (Vec32 (Fin 0) (Fin 0) (Fin 2)) (Vec32 (Fin 0) (Fin 0) (Fin (- 1)))"]
    by (simp add: c1_defs)
  have miss: "intersect_sphere32
     (Sphere32 (Vec32 (Fin 0) (Fin 0) (Fin (- 3))) (Fin 1) (Vec32 (Fin 1) (Fin 1) (Fin 1)) (Fin 0))
     (Ray32 (Vec32 (Fin 0) (Fin 0) (Fin 2)) (Vec32 (Fin 0) (Fin 1) (Fin 0))) = PInf"
    using intersect_sphere32_cases [where s =
     "Sphere32 (Vec32 (Fin 0) (Fin 0) (Fin (- 3))) (Fin 1) (Vec32 (Fin 1) (Fin 1) (Fin 1)) (Fin 0)"
     and r = "Ray32 (Vec32 (Fin 0) (Fin 0) (Fin 2)) (Vec32 (Fin 0) (Fin 1) (Fin 0))"]
    by (simp add: c1_defs)
  have behind: "intersect_sphere32
     (Sphere32 (Vec32 (Fin 0) (Fin 0) (Fin (- 3))) (Fin 1) (Vec32 (Fin 1) (Fin 1) (Fin 1)) (Fin 0))
     (Ray32 (Vec32 (Fin 0) (Fin 0) (Fin 2)) (Vec32 (Fin 0) (Fin 0) (Fin 1))) = PInf"
    using intersect_sphere32_cases [where s =
     "Sphere32 (Vec32 (Fin 0) (Fin 0) (Fin (- 3))) (Fin 1) (Vec32 (Fin 1) (Fin 1) (Fin 1)) (Fin 0)"
     and r = "Ray32 (Vec32 (Fin 0) (Fin 0) (Fin 2)) (Vec32 (Fin 0) (Fin 0) (Fin 1))"]
    by (simp add: c1_defs)
  have tangent: "intersect_sphere32
     (Sphere32 (Vec32 (Fin 0) (Fin 0) (Fin (- 3))) (Fin 1) (Vec32 (Fin 1) (Fin 1) (Fin 1)) (Fin 0))
     (Ray32 (Vec32 (Fin 0) (Fin 0) (Fin (- 2))) (Vec32 (Fin 1) (Fin 0) (Fin 0))) = PInf"
    using intersect_sphere32_cases [where s =
     "Sphere32 (Vec32 (Fin 0) (Fin 0) (Fin (- 3))) (Fin 1) (Vec32 (Fin 1) (Fin 1) (Fin 1)) (Fin 0)"
     and r = "Ray32 (Vec32 (Fin 0) (Fin 0) (Fin (- 2))) (Vec32 (Fin 1) (Fin 0) (Fin 0))"]
    by (simp add: c1_defs)
  have rounded: "intersect_sphere32
     (Sphere32 (Vec32 (Fin 0) (Fin 0) (Fin 0)) (Fin (3 / 4)) (Vec32 (Fin 1) (Fin 1) (Fin 1)) (Fin 0))
     (Ray32 (Vec32 (Fin (12582913 / 16777216)) (Fin 0) (Fin 5)) (Vec32 (Fin 0) (Fin 0) (Fin (- 1))))
       = Fin 5"
    using intersect_sphere32_cases [where s =
     "Sphere32 (Vec32 (Fin 0) (Fin 0) (Fin 0)) (Fin (3 / 4)) (Vec32 (Fin 1) (Fin 1) (Fin 1)) (Fin 0)"
     and r = "Ray32 (Vec32 (Fin (12582913 / 16777216)) (Fin 0) (Fin 5)) (Vec32 (Fin 0) (Fin 0) (Fin (- 1)))"]
    by (simp add: c1_defs rnd_c1_1 rnd_c1_2 rnd_c1_3 rnd_c1_4 rnd_c1_5)
  have overflow: "intersect_sphere32
     (Sphere32 (Vec32 (Fin 0) (Fin 0) (neg32 (rnd 100000000000000000000))) (Fin 1)
        (Vec32 (Fin 1) (Fin 1) (Fin 1)) (Fin 0))
     (Ray32 (Vec32 (Fin 0) (Fin 0) (Fin 0)) (Vec32 (Fin 0) (Fin 0) (Fin (- 1)))) = PInf"
    using intersect_sphere32_cases [where s =
     "Sphere32 (Vec32 (Fin 0) (Fin 0) (neg32 (rnd 100000000000000000000))) (Fin 1)
        (Vec32 (Fin 1) (Fin 1) (Fin 1)) (Fin 0)"
     and r = "Ray32 (Vec32 (Fin 0) (Fin 0) (Fin 0)) (Vec32 (Fin 0) (Fin 0) (Fin (- 1)))"]
    by (simp add: c1_defs rnd_c1_6 rnd_c1_7 rnd_c1_8 rnd_c1_9)
  from hit miss behind tangent rounded overflow show ?thesis by simp
qed

subsection \<open>Quantization\<close>

lemma rnd_c4_1: "rnd (255999 / 1000) = Fin (8388575 / 32768)"
  by (rule rnd_eval [of "7" _ "16777150"]) (simp_all add: pow2_def round_even_def)

lemma rnd_c4_2: "rnd (11534381 / 268435456) = Fin (11534381 / 268435456)"
  by (rule rnd_exact [of _ "11534381" "- 28"]) (simp_all add: pow2_def)

lemma rnd_c4_3: "rnd (96757020097075 / 8796093022208) = Fin 11"
  by (rule rnd_eval [of "3" _ "11534336"]) (simp_all add: pow2_def round_even_def)

lemma rnd_c4_4: "rnd (999999 / 1000000) = Fin (16777199 / 16777216)"
  by (rule rnd_eval [of "- 1" _ "16777199"]) (simp_all add: pow2_def round_even_def)

lemma rnd_c4_5: "rnd (140736792101425 / 549755813888) = Fin (16777133 / 65536)"
  by (rule rnd_eval [of "7" _ "16777133"]) (simp_all add: pow2_def round_even_def)

lemma rnd_c4_6: "rnd (8388575 / 65536) = Fin (8388575 / 65536)"
  by (rule rnd_exact [of _ "8388575" "- 16"]) (simp_all add: pow2_def)

lemma clip32_product:
  assumes "0 < a" and "a < 1"
  shows "\<exists>p. rnd (a * (8388575 / 32768)) = Fin p \<and> 0 \<le> p \<and> p \<le> 8388575 / 32768"
proof (rule rnd_below_grid [of _ _ 8388575 "- 15"])
  show "0 < a * (8388575 / 32768)" using assms(1) by simp
  show "a * (8388575 / 32768) \<le> 8388575 / 32768" using assms(2) by simp
  show "8388575 / 32768 = real_of_int 8388575 * pow2 (- 15)" by (simp add: pow2_def)
qed simp_all

lemma clip32_inner:
  assumes "0 < a" and "a < 1"
  shows "\<exists>p. rnd (a * (8388575 / 32768)) = Fin p \<and> clip32 (Fin a) = Some \<lfloor>p\<rfloor>
             \<and> 0 \<le> \<lfloor>p\<rfloor> \<and> \<lfloor>p\<rfloor> \<le> 255"
proof -
  from clip32_product [OF assms] obtain p
    where p: "rnd (a * (8388575 / 32768)) = Fin p" "0 \<le> p" "p \<le> 8388575 / 32768"
    by blast
  have lo: "0 \<le> \<lfloor>p\<rfloor>" using p(2) by simp
  have "p < 256" using p(3) by simp
  then have hi: "\<lfloor>p\<rfloor> \<le> 255" by (simp add: floor_le_iff)
  have "clip32 (Fin a) = Some \<lfloor>p\<rfloor>"
    using assms p(1,2) lo hi by (simp add: clip32_def ge32_def rnd_c4_1 Let_def)
  with p(1) lo hi show ?thesis by blast
qed

lemma clip32_range:
  assumes "c \<noteq> NaN"
  shows "\<exists>n. clip32 c = Some n \<and> 0 \<le> n \<and> n \<le> 255"
proof (cases c)
  case (Fin a)
  consider "a \<le> 0" | "1 \<le> a" | "0 < a" "a < 1" by linarith
  then show ?thesis
  proof cases
    case 1
    then show ?thesis using Fin by (simp add: clip32_def)
  next
    case 2
    then show ?thesis using Fin by (simp add: clip32_def ge32_def)
  next
    case 3
    then show ?thesis using clip32_inner [of a] Fin by blast
  qed
qed (use assms in \<open>simp_all add: clip32_def ge32_def\<close>)

text \<open>
  C4, as the code has it. For every color component c: clip returns 0 when \<open>c \<le> 0\<close> and
  255 when \<open>c \<ge> 1\<close>; for \<open>0 < c < 1\<close> it returns the integer part of p, where p is the
  binary32 product of c and \<^verbatim>\<open>255.999f\<close> = 8388575/32768, that is, the rounded product and
  not the exact one. For every c that is not a NaN the result is an integer from 0 to
  255. 0 gives 0, 1 gives 255, and \<^verbatim>\<open>0.999999f\<close> gives 255. For a NaN both comparisons are
  false and the conversion to \<^verbatim>\<open>int\<close> is undefined.
\<close>

theorem clip32_quantize:
  "(le32 c (Fin 0) \<longrightarrow> clip32 c = Some 0)
   \<and> (ge32 c (Fin 1) \<longrightarrow> clip32 c = Some 255)
   \<and> (c = Fin a \<and> 0 < a \<and> a < 1 \<longrightarrow>
         (\<exists>p. rnd (a * (8388575 / 32768)) = Fin p \<and> clip32 c = Some \<lfloor>p\<rfloor>))
   \<and> (c \<noteq> NaN \<longrightarrow> (\<exists>n. clip32 c = Some n \<and> 0 \<le> n \<and> n \<le> 255))
   \<and> rnd 255.999 = Fin (8388575 / 32768)
   \<and> clip32 (Fin 0) = Some 0 \<and> clip32 (Fin 1) = Some 255
   \<and> clip32 (rnd 0.999999) = Some 255
   \<and> clip32 NaN = None"
proof -
  have 1: "le32 c (Fin 0) \<longrightarrow> clip32 c = Some 0" by (simp add: clip32_def)
  have 2: "ge32 c (Fin 1) \<longrightarrow> clip32 c = Some 255"
    by (cases c) (auto simp: clip32_def ge32_def)
  have 3: "c = Fin a \<and> 0 < a \<and> a < 1 \<longrightarrow>
         (\<exists>p. rnd (a * (8388575 / 32768)) = Fin p \<and> clip32 c = Some \<lfloor>p\<rfloor>)"
    using clip32_inner [of a] by blast
  have 4: "c \<noteq> NaN \<longrightarrow> (\<exists>n. clip32 c = Some n \<and> 0 \<le> n \<and> n \<le> 255)"
    using clip32_range by blast
  have 5: "rnd 255.999 = Fin (8388575 / 32768)" by (simp add: rnd_c4_1)
  have 6: "clip32 (Fin 0) = Some 0" "clip32 (Fin 1) = Some 255" "clip32 NaN = None"
    by (simp_all add: clip32_def ge32_def)
  have 7: "clip32 (rnd 0.999999) = Some 255"
    by (simp add: clip32_def ge32_def rnd_c4_1 rnd_c4_4 rnd_c4_5)
  show ?thesis using 1 2 3 4 5 6 7 by blast
qed

text \<open>
  One input for each case: -2 and \<open>-inf\<close> give 0, 3 and \<open>+inf\<close> give 255, 0.5 gives 127
  (the product 127.9995 is a binary32 number), and c = 11534381 * 2^-28 gives 11.
\<close>

theorem clip32_quantize_witness:
  "clip32 (Fin (- 2)) = Some 0 \<and> clip32 NInf = Some 0
   \<and> clip32 (Fin 3) = Some 255 \<and> clip32 PInf = Some 255
   \<and> clip32 (Fin (1 / 2)) = Some 127
   \<and> clip32 (Fin (11534381 / 268435456)) = Some 11"
proof -
  have a: "clip32 (Fin (- 2)) = Some 0" "clip32 NInf = Some 0"
    using clip32_quantize [of "Fin (- 2)"] clip32_quantize [of NInf] by simp_all
  have b: "clip32 (Fin 3) = Some 255" "clip32 PInf = Some 255"
    using clip32_quantize [of "Fin 3"] clip32_quantize [of PInf] by (simp_all add: ge32_def)
  have "\<exists>p. rnd ((1 / 2) * (8388575 / 32768)) = Fin p \<and> clip32 (Fin (1 / 2)) = Some \<lfloor>p\<rfloor>"
    using clip32_quantize [of "Fin (1 / 2)" "1 / 2"] by simp
  then obtain p where p: "rnd (8388575 / 65536) = Fin p" "clip32 (Fin (1 / 2)) = Some \<lfloor>p\<rfloor>"
    by auto
  from p(1) have "p = 8388575 / 65536" by (simp only: rnd_c4_6 f32.inject)
  with p(2) have c: "clip32 (Fin (1 / 2)) = Some 127" by simp
  have "\<exists>p. rnd ((11534381 / 268435456) * (8388575 / 32768)) = Fin p
            \<and> clip32 (Fin (11534381 / 268435456)) = Some \<lfloor>p\<rfloor>"
    using clip32_quantize [of "Fin (11534381 / 268435456)" "11534381 / 268435456"] by simp
  then obtain q where q: "rnd (96757020097075 / 8796093022208) = Fin q"
    "clip32 (Fin (11534381 / 268435456)) = Some \<lfloor>q\<rfloor>"
    by auto
  from q(1) have "q = 11" by (simp only: rnd_c4_3 f32.inject)
  with q(2) have d: "clip32 (Fin (11534381 / 268435456)) = Some 11" by simp
  from a b c d show ?thesis by simp
qed

text \<open>
  The input on which the code and \<open>floor(c * 255.999)\<close> differ. c = 11534381 * 2^-28, about
  0.042969, is a binary32 number strictly between 0 and 1. The exact product
  \<open>c * 255.999\<close> is 10.99999994..., with floor 10; the product of c and \<^verbatim>\<open>255.999f\<close> is
  10.99999964..., nearer to 11 than to the binary32 number below 11, so the code
  computes 11.0f and returns 11. And a NaN has no result at all.
\<close>

theorem clip32_counterexample:
  "rnd (11534381 / 268435456) = Fin (11534381 / 268435456)
   \<and> lt32 (Fin 0) (Fin (11534381 / 268435456)) \<and> lt32 (Fin (11534381 / 268435456)) (Fin 1)
   \<and> clip32 (Fin (11534381 / 268435456)) = Some 11
   \<and> \<lfloor>(11534381 / 268435456) * 255.999 :: real\<rfloor> = 10
   \<and> clip32 NaN = None"
  by (simp add: clip32_def ge32_def rnd_c4_1 rnd_c4_2 rnd_c4_3)

subsection \<open>Phong shading\<close>
















lemma mul32_zero_Fin: "mul32 (Fin 0) (Fin k) = Fin 0"
  by simp


lemmas c2_defs = vsub32_def vadd32_def smul32_def dot32_def norm32_def sub32_def Vec32_def
  power2_eq_square Let_def

lemma c2_norm_axis: "norm32 (Vec32 (Fin 0) (Fin 0) (Fin 2)) = Vec32 (Fin 0) (Fin 0) (Fin 1)"
  by (simp add: c2_defs)

lemma c2_norm_zero: "norm32 (Vec32 (Fin 0) (Fin 0) (Fin 0)) = Vec32 NaN NaN NaN"
  by (simp add: c2_defs)



end
